theory Spec2Isabelle
  imports Main "HOL-Library.AList"
begin

section \<open>Data model\<close>

text \<open>
  Modelled from the spec: the type declarations of the graph, the file map, the project
  and provider configuration (\<^verbatim>\<open>config/project-graph.ts\<close>, \<^verbatim>\<open>config/nx-json.ts\<close>,
  \<^verbatim>\<open>config/workspace-json-project-json.ts\<close>) are not among the sources; the records
  below have the fields that the two modules under study read and write, as the data
  model of the spec describes them. The dependencies of a graph are its list of edges.
  A metadata value is a scalar or an array; the optional parts of a project
  configuration other than the metadata are left out.

  A JavaScript object with string keys is an association list in insertion order
  (\<open>AList.update\<close> overwrites in place and appends a new key at the end, as property
  assignment does); a JavaScript \<^verbatim>\<open>Set\<close> is a duplicate-free list in insertion order.
\<close>

datatype MetaValue = Scalar string | Items "string list"

type_synonym Metadata = "(string \<times> MetaValue) list"

record FileData =
  filePath :: string
  hash :: string
  deps :: "string list option"

record FileMap =
  nonProjectFiles :: "FileData list"
  projectFileMap :: "(string \<times> FileData list) list"

record ProjectConfiguration =
  name :: string
  root :: string
  metadata :: "Metadata option"

record ProjectGraphProjectNode =
  data :: ProjectConfiguration

record ProjectGraphExternalNode =
  packageName :: string
  version :: string

datatype DependencyType = Static | Dynamic | Implicit

record ProjectGraphDependency =
  source :: string
  target :: string
  depType :: DependencyType
  sourceFile :: "string option"

record ProjectGraph =
  nodes :: "(string \<times> ProjectGraphProjectNode) list"
  externalNodes :: "(string \<times> ProjectGraphExternalNode) list"
  dependencies :: "ProjectGraphDependency list"
  graphVersion :: "string option"

text \<open>
  Modelled from the spec: \<^verbatim>\<open>error-types.ts\<close> is not among the sources; the error
  kinds are those of the spec, with the constructor arguments that the two modules and
  the test suite use. \<open>AggregateCreateNodesError errors pluginName\<close> carries the per-file
  sub-errors as pairs of a file (or null) and a cause (the test suite passes
  \<^verbatim>\<open>undefined\<close> causes); \<open>MergeNodesError file pluginName cause\<close>;
  \<open>ProjectConfigurationsError errors\<close> with an optional error list (the probe reads it
  with \<^verbatim>\<open>errors?.forEach\<close>); \<open>AggregateProjectGraphError errors partialProjectGraph\<close>.
  \<open>TypeError\<close> is the error the language itself throws when a value that is not a
  function is called.
\<close>

datatype Error =
    GenericError string
  | TypeError string
  | WorkspaceValidityError string
  | ProcessDependenciesError string Error
  | CreateMetadataError Error string
  | AggregateCreateNodesError "(string option \<times> Error option) list" "string option"
  | MergeNodesError string string Error
  | ProjectsWithNoNameError "string list"
  | ProjectConfigurationsError "Error list option"
  | AggregateProjectGraphError "Error list" ProjectGraph

record ExpandedPluginConfiguration =
  plugin :: string
  options :: "string option"
  includePaths :: "string list option"
  exclude :: "string list option"

datatype PluginConfiguration =
    PluginName string
  | Expanded ExpandedPluginConfiguration

record NxJsonConfiguration =
  plugins :: "PluginConfiguration list option"
  otherSettings :: string

type_synonym ExcludeFilesMap = "(string \<times> string list) list"

section \<open>The compatibility probe (check-compatible-with-plugins.ts)\<close>

text \<open>\<^verbatim>\<open>Set.prototype.add\<close>: a present element keeps its place, a new one goes last.\<close>

definition set_add :: "'a \<Rightarrow> 'a list \<Rightarrow> 'a list" where
  "set_add x xs = (if x \<in> set xs then xs else xs @ [x])"

text \<open>\<^verbatim>\<open>excludeFiles.filter(Boolean)\<close>: null, undefined and the empty string are dropped.\<close>

fun truthyStrings :: "string option list \<Rightarrow> string list" where
  "truthyStrings [] = []"
| "truthyStrings (None # fs) = truthyStrings fs"
| "truthyStrings (Some f # fs) = (if f = [] then truthyStrings fs else f # truthyStrings fs)"

definition findPluginAndFilesWithError :: "Error \<Rightarrow> (string \<times> string list) option" where
  "findPluginAndFilesWithError error =
     (let (pluginName, excludeFiles) =
        (case error of
           AggregateCreateNodesError errors pn \<Rightarrow> (pn, map fst errors)
         | MergeNodesError f pn cause \<Rightarrow> (Some pn, [Some f])
         | _ \<Rightarrow> (None, []));
        excludeFiles = truthyStrings excludeFiles
      in case pluginName of
           None \<Rightarrow> None
         | Some pn \<Rightarrow> if pn = [] \<or> excludeFiles = [] then None else Some (pn, excludeFiles))"

definition lookupSet :: "ExcludeFilesMap \<Rightarrow> string \<Rightarrow> string list" where
  "lookupSet m k = (case map_of m k of None \<Rightarrow> [] | Some s \<Rightarrow> s)"

text \<open>
  The accumulator \<open>pluginNametoExcludeFiles\<close> is a plain object literal, so reading a
  key that it does not own finds the properties it inherits from \<^verbatim>\<open>Object.prototype\<close>.
  These are the names below; the value inherited under each of them is a function or an
  object, never null or undefined, and none of them has a method \<^verbatim>\<open>add\<close>.
\<close>

definition objectPrototypeKeys :: "string list" where
  "objectPrototypeKeys =
     [''constructor'', ''__defineGetter__'', ''__defineSetter__'', ''hasOwnProperty'',
      ''__lookupGetter__'', ''__lookupSetter__'', ''isPrototypeOf'', ''propertyIsEnumerable'',
      ''toString'', ''valueOf'', ''__proto__'', ''toLocaleString'']"

text \<open>
  The body of the \<^verbatim>\<open>forEach\<close> over the errors of a ProjectConfigurationsError. For a
  provider name among the inherited keys, \<^verbatim>\<open>??=\<close> finds a value and assigns nothing,
  and the call of \<^verbatim>\<open>add\<close> on that value throws a TypeError for the first file; the
  name never becomes a key of the accumulator. \<open>collectErrors\<close> is the \<^verbatim>\<open>forEach\<close>
  itself: it stops at the first error that its body throws.
\<close>

definition collectError :: "Error \<Rightarrow> ExcludeFilesMap \<Rightarrow> Error + ExcludeFilesMap" where
  "collectError error m =
     (case findPluginAndFilesWithError error of
        None \<Rightarrow> Inr m
      | Some (pluginName, excludeFiles) \<Rightarrow>
          if pluginName = [] \<or> excludeFiles = [] then Inr m
          else if pluginName \<in> set objectPrototypeKeys
          then Inl (TypeError ''pluginNametoExcludeFiles[pluginName].add is not a function'')
          else
            let m1 = (case map_of m pluginName of
                        None \<Rightarrow> AList.update pluginName [] m
                      | Some s \<Rightarrow> m)
            in Inr (fold (\<lambda>f acc. AList.update pluginName
                                     (set_add f (lookupSet acc pluginName)) acc)
                      excludeFiles m1))"

fun collectErrors :: "Error list \<Rightarrow> ExcludeFilesMap \<Rightarrow> Error + ExcludeFilesMap" where
  "collectErrors [] m = Inr m"
| "collectErrors (error # es) m =
     (case collectError error m of
        Inl thrown \<Rightarrow> Inl thrown
      | Inr m' \<Rightarrow> collectErrors es m')"

text \<open>
  \<open>checkCompatibleWithPlugins\<close>. The collaborators that are not part of the module are
  parameters, each returning \<open>Inl\<close> when it throws or rejects: \<open>loadNxPlugins\<close> and
  \<open>retrieveProjectConfigurations\<close>, both called inside a \<^verbatim>\<open>try\<close> block, and
  \<open>readNxJson\<close>, called between the two blocks. The result is \<open>Inr\<close> of the mapping
  when the promise of the function is fulfilled and \<open>Inl\<close> of the error when it is
  rejected. An error thrown inside the \<^verbatim>\<open>catch\<close> handler of the second block is not
  caught by anything.
\<close>

definition checkCompatibleWithPlugins ::
  "(PluginConfiguration list \<Rightarrow> string \<Rightarrow> Error + 'p \<times> 'c) \<Rightarrow>
   ('p \<Rightarrow> string \<Rightarrow> NxJsonConfiguration \<Rightarrow> Error + 'r) \<Rightarrow>
   (string \<Rightarrow> Error + NxJsonConfiguration) \<Rightarrow> string \<Rightarrow>
   PluginConfiguration list \<Rightarrow> string \<Rightarrow> string \<Rightarrow> Error + ExcludeFilesMap" where
  "checkCompatibleWithPlugins loadNxPlugins retrieveProjectConfigurations readNxJson
       workspaceRoot pluginList projectRootPathToCheck rootDir =
     (case loadNxPlugins pluginList rootDir of
        Inl e \<Rightarrow> Inr []
      | Inr (nxPlugins, cleanup) \<Rightarrow>
          (let pluginNametoExcludeFiles = []
           in case readNxJson workspaceRoot of
                Inl e \<Rightarrow> Inl e
              | Inr nxJson \<Rightarrow>
                  (case retrieveProjectConfigurations nxPlugins projectRootPathToCheck nxJson of
                     Inr configurations \<Rightarrow> Inr pluginNametoExcludeFiles
                   | Inl (ProjectConfigurationsError errors) \<Rightarrow>
                       collectErrors (case errors of None \<Rightarrow> [] | Some es \<Rightarrow> es)
                         pluginNametoExcludeFiles
                   | Inl projectConfigurationsError \<Rightarrow> Inr pluginNametoExcludeFiles)))"

text \<open>
  \<open>findPluginWithName\<close>. The callback of \<^verbatim>\<open>plugins.find\<close> is \<open>matchesPluginName\<close>;
  the descriptor found is returned as its position in the list, together with the list
  after the in-place upgrade of a bare string.
\<close>

fun findIndex :: "('a \<Rightarrow> bool) \<Rightarrow> 'a list \<Rightarrow> nat option" where
  "findIndex P [] = None"
| "findIndex P (x # xs) = (if P x then Some 0 else map_option Suc (findIndex P xs))"

fun matchesPluginName :: "string \<Rightarrow> PluginConfiguration \<Rightarrow> bool" where
  "matchesPluginName pluginName (PluginName s) = (s = pluginName)"
| "matchesPluginName pluginName (Expanded p) = (plugin p = pluginName)"

definition findPluginWithName ::
  "PluginConfiguration list \<Rightarrow> string \<Rightarrow> PluginConfiguration list \<times> nat option" where
  "findPluginWithName pluginList pluginName =
     (case findIndex (matchesPluginName pluginName) pluginList of
        None \<Rightarrow> (pluginList, None)
      | Some foundIndex \<Rightarrow>
          (case pluginList ! foundIndex of
             PluginName s \<Rightarrow>
               (pluginList[foundIndex := Expanded \<lparr>plugin = pluginName, options = None,
                                                    includePaths = None, exclude = None\<rparr>],
                Some foundIndex)
           | Expanded p \<Rightarrow> (pluginList, Some foundIndex)))"

text \<open>The state of \<^verbatim>\<open>nx.json\<close> on disk, as \<open>existsSync\<close> and \<open>readJsonFile\<close> see it.\<close>

datatype NxJsonFile = Absent | Unreadable | Readable NxJsonConfiguration

fun excludeList :: "PluginConfiguration \<Rightarrow> string list" where
  "excludeList (PluginName s) = []"
| "excludeList (Expanded p) = (case exclude p of None \<Rightarrow> [] | Some ex \<Rightarrow> ex)"

text \<open>The body of the \<^verbatim>\<open>forEach\<close> over the entries of the probe result.\<close>

fun excludeEntry ::
  "string \<times> string list \<Rightarrow> PluginConfiguration list \<Rightarrow> PluginConfiguration list" where
  "excludeEntry (pluginName, excludeFiles) pluginList =
     (case findPluginWithName pluginList pluginName of
        (pluginList', None) \<Rightarrow> pluginList'
      | (pluginList', Some i) \<Rightarrow>
          if excludeFiles = [] then pluginList'
          else
            (case pluginList' ! i of
               PluginName s \<Rightarrow> pluginList'
             | Expanded p \<Rightarrow>
                 pluginList'[i := Expanded (p\<lparr>exclude :=
                    Some (fold set_add (excludeList (Expanded p)) excludeFiles)\<rparr>)]))"

text \<open>
  \<open>updatePluginsInNxJson\<close> returns the document it writes with \<^verbatim>\<open>writeJsonFile\<close>,
  or \<open>None\<close> when it returns without writing.
\<close>

definition updatePluginsInNxJson ::
  "NxJsonFile \<Rightarrow> ExcludeFilesMap \<Rightarrow> NxJsonConfiguration option" where
  "updatePluginsInNxJson nxJsonFile pluginNametoExcludeFiles =
     (case nxJsonFile of
        Absent \<Rightarrow> None
      | Unreadable \<Rightarrow> None
      | Readable nxJson \<Rightarrow>
          (case plugins nxJson of
             None \<Rightarrow> None
           | Some pluginList \<Rightarrow>
               if pluginNametoExcludeFiles = [] \<or> pluginList = [] then None
               else Some (nxJson\<lparr>plugins :=
                      Some (fold excludeEntry pluginNametoExcludeFiles pluginList)\<rparr>)))"

subsection \<open>What the probe is expected to report\<close>

text \<open>
  The provider an error implicates and the file paths it cites, read off the error
  value alone: a create-nodes aggregate cites the files of its sub-errors, a merge
  error its single file. A null file and the empty string are not file paths.
\<close>

fun isAggregateCreateNodesError :: "Error \<Rightarrow> bool" where
  "isAggregateCreateNodesError (AggregateCreateNodesError errors pn) = True"
| "isAggregateCreateNodesError _ = False"

fun isMergeNodesError :: "Error \<Rightarrow> bool" where
  "isMergeNodesError (MergeNodesError f pn cause) = True"
| "isMergeNodesError _ = False"

fun citedProvider :: "Error \<Rightarrow> string option" where
  "citedProvider (AggregateCreateNodesError errors pn) = pn"
| "citedProvider (MergeNodesError f pn cause) = Some pn"
| "citedProvider _ = None"

fun citedFiles :: "Error \<Rightarrow> string set" where
  "citedFiles (AggregateCreateNodesError errors pn) = set (List.map_filter fst errors) - {[]}"
| "citedFiles (MergeNodesError f pn cause) = {f} - {[]}"
| "citedFiles _ = {}"

definition offendingFiles :: "string \<Rightarrow> Error list \<Rightarrow> string set" where
  "offendingFiles p es = \<Union> (citedFiles ` {e \<in> set es. citedProvider e = Some p})"

text \<open>The five errors of the test \<^verbatim>\<open>should handle multiple errors\<close>.\<close>

definition mixedScenario :: "Error list" where
  "mixedScenario =
     [ProjectsWithNoNameError [],
      AggregateCreateNodesError [] (Some ''randomPlugin''),
      AggregateCreateNodesError [(Some ''file1'', None), (Some ''file2'', None)]
        (Some ''plugin1''),
      MergeNodesError ''file2'' ''plugin2'' (GenericError []),
      AggregateCreateNodesError [(Some ''file3'', None), (Some ''file4'', None)]
        (Some ''plugin2'')]"

text \<open>
  Errors that implicate a provider whose name is an inherited key: a create-nodes
  aggregate for a provider named \<open>constructor\<close>, and the five errors of the test
  followed by a merge error of a provider named \<open>toString\<close>.
\<close>

definition constructorScenario :: "Error list" where
  "constructorScenario =
     [AggregateCreateNodesError [(Some ''file1'', Some (GenericError ''invalid project''))]
        (Some ''constructor'')]"

definition toStringScenario :: "Error list" where
  "toStringScenario =
     mixedScenario @ [MergeNodesError ''file5'' ''toString'' (GenericError ''conflict'')]"

text \<open>Collaborators with a fixed outcome, for evaluating the probe.\<close>

definition loadsFine :: "PluginConfiguration list \<Rightarrow> string \<Rightarrow> Error + unit \<times> unit" where
  "loadsFine pluginList rootDir = Inr ((), ())"

definition cannotLoad :: "PluginConfiguration list \<Rightarrow> string \<Rightarrow> Error + unit \<times> unit" where
  "cannotLoad pluginList rootDir = Inl (GenericError ''cannot load'')"

definition readsNxJson :: "string \<Rightarrow> Error + NxJsonConfiguration" where
  "readsNxJson dir = Inr \<lparr>plugins = None, otherSettings = []\<rparr>"

definition cannotReadNxJson :: "string \<Rightarrow> Error + NxJsonConfiguration" where
  "cannotReadNxJson dir = Inl (GenericError ''nx.json is not valid JSON'')"

definition retrievalFailsWith ::
  "Error \<Rightarrow> unit \<Rightarrow> string \<Rightarrow> NxJsonConfiguration \<Rightarrow> Error + unit" where
  "retrievalFailsWith e nxPlugins projectRootPathToCheck nxJson = Inl e"

definition retrievalSucceeds :: "unit \<Rightarrow> string \<Rightarrow> NxJsonConfiguration \<Rightarrow> Error + unit" where
  "retrievalSucceeds nxPlugins projectRootPathToCheck nxJson = Inr ()"

subsection \<open>What the auto-exclusion step is expected to write\<close>

fun descriptorName :: "PluginConfiguration \<Rightarrow> string" where
  "descriptorName (PluginName s) = s"
| "descriptorName (Expanded p) = plugin p"

text \<open>
  One entry of the probe result applied to the descriptor it matches: the descriptor
  takes structured form and, unless the entry has no file, its exclude list becomes the
  offending files followed by the previous exclude entries that are new to the set.
\<close>

definition updatedDescriptor ::
  "string \<Rightarrow> string list \<Rightarrow> PluginConfiguration \<Rightarrow> PluginConfiguration" where
  "updatedDescriptor pluginName excludeFiles d =
     (let p = (case d of
                 PluginName s \<Rightarrow> \<lparr>plugin = pluginName, options = None,
                                  includePaths = None, exclude = None\<rparr>
               | Expanded q \<Rightarrow> q)
      in if excludeFiles = [] then Expanded p
         else Expanded (p\<lparr>exclude := Some (fold set_add (excludeList d) excludeFiles)\<rparr>))"

section \<open>Building the project graph (build-project-graph.ts)\<close>

subsection \<open>Providers, promises and contexts\<close>

text \<open>
  A promise is given by the instant at which it settles and by its outcome (\<open>Inl\<close> a
  rejection, \<open>Inr\<close> a value). The continuations of the promises awaited in one
  \<^verbatim>\<open>Promise.all\<close> run in the order in which the promises settle; promises that settle
  at the same instant continue in the order in which they were awaited. \<open>sort_key\<close>
  is a stable sort, so \<open>settleOrder\<close> is this order.
\<close>

type_synonym 'a Promise = "nat \<times> (Error + 'a)"

definition settleOrder :: "(string \<times> 'a Promise) list \<Rightarrow> (string \<times> 'a Promise) list" where
  "settleOrder calls = sort_key (\<lambda>call. fst (snd call)) calls"

type_synonym ProjectsMetadata = "(string \<times> Metadata) list"

type_synonym SourceInformation = "string option \<times> string"

type_synonym SourceMap = "(string \<times> SourceInformation) list"

type_synonym ConfigurationSourceMaps = "(string \<times> SourceMap) list"

record PackageJson =
  pkgDependencies :: "(string \<times> string) list option"
  pkgDevDependencies :: "(string \<times> string) list option"

text \<open>
  The file map of a build is one mutable object that the stored module state, the
  context and the builders all refer to. File map objects live in a store, at an
  address; a file map object is named by its address, or it is an object that the code
  has just created with a given content and that nothing else refers to.
\<close>

type_synonym ref = nat

type_synonym Store = "ref \<Rightarrow> FileMap"

datatype FileMapObject = ObjectAt ref | NewObject FileMap

fun contentOf :: "Store \<Rightarrow> FileMapObject \<Rightarrow> FileMap" where
  "contentOf store (ObjectAt r) = store r"
| "contentOf store (NewObject fm) = fm"

record CreateDependenciesContext =
  ctxNxJsonConfiguration :: NxJsonConfiguration
  ctxProjects :: "(string \<times> ProjectConfiguration) list"
  ctxExternalNodes :: "(string \<times> ProjectGraphExternalNode) list"
  ctxWorkspaceRoot :: string
  ctxFileMap :: ref
  ctxFilesToProcess :: FileMapObject

type_synonym CreateMetadataContext = "NxJsonConfiguration \<times> string"

text \<open>
  Modelled from the spec: the provider interface (\<^verbatim>\<open>plugins/internal-api.ts\<close>) is not
  among the sources. A loaded provider has a name and the two optional capabilities.
  The spec gives the providers an immutable context: \<open>createDependencies\<close> reads the
  context and, through it, the file map objects as they are in the store when it is
  called, and writes to neither.
\<close>

record LoadedNxPlugin =
  pluginName :: string
  createDependencies ::
    "(CreateDependenciesContext \<Rightarrow> Store \<Rightarrow> ProjectGraphDependency list Promise) option"
  createMetadata ::
    "(ProjectGraph \<Rightarrow> CreateMetadataContext \<Rightarrow> ProjectsMetadata Promise) option"

record CachedFileData =
  cachedNonProjectFiles :: "(string \<times> FileData) list"
  cachedProjectFileMap :: "(string \<times> (string \<times> FileData) list) list"

subsection \<open>The graph builder\<close>

text \<open>
  Modelled from the spec: \<^verbatim>\<open>project-graph-builder.ts\<close> is not among the sources. The
  builder accumulates a graph; \<open>addDependency\<close> fails when an endpoint is neither a
  project node nor an external node, and otherwise appends the edge unless an identical
  edge is there already; \<open>addExternalNode\<close> fails when a node of that name exists with
  other data; the snapshot is the accumulated graph.

  The source constructs a builder from a graph (or null), the per-project file lists of
  a file map and, in the dependency phase only, its non-project files. These are parts
  of the file map object itself, so the builder keeps the address of that file map and
  whether it was given the non-project files. The data model of the spec has the
  dependency list of a file populated lazily with the targets discovered for that file:
  a dependency that is added with its originating file is recorded in the list of that
  file, in the file map the builder refers to. The file is found by its path in the
  file list of the source project or, when the source has no file list and the builder
  was given the non-project files, among these.
\<close>

record ProjectGraphBuilder =
  builderGraph :: ProjectGraph
  builderFileMap :: ref
  builderHasNonProjectFiles :: bool

definition newProjectGraphBuilder ::
  "ProjectGraph option \<Rightarrow> ref \<Rightarrow> bool \<Rightarrow> ProjectGraphBuilder" where
  "newProjectGraphBuilder g fileMapRef withNonProjectFiles =
     \<lparr>builderGraph =
        (case g of
           None \<Rightarrow> \<lparr>nodes = [], externalNodes = [], dependencies = [], graphVersion = None\<rparr>
         | Some graph \<Rightarrow> graph),
      builderFileMap = fileMapRef,
      builderHasNonProjectFiles = withNonProjectFiles\<rparr>"

definition setVersion :: "string \<Rightarrow> ProjectGraphBuilder \<Rightarrow> ProjectGraphBuilder" where
  "setVersion v builder = builder\<lparr>builderGraph := (builderGraph builder)\<lparr>graphVersion := Some v\<rparr>\<rparr>"

definition knownEndpoint :: "ProjectGraph \<Rightarrow> string \<Rightarrow> bool" where
  "knownEndpoint graph n \<longleftrightarrow>
     n \<in> fst ` set (nodes graph) \<or> n \<in> fst ` set (externalNodes graph)"

definition addExternalNode ::
  "ProjectGraphExternalNode \<Rightarrow> ProjectGraphBuilder \<Rightarrow> Error + ProjectGraphBuilder" where
  "addExternalNode node builder =
     (let graph = builderGraph builder
      in case map_of (externalNodes graph) (packageName node) of
           None \<Rightarrow>
             Inr (builder\<lparr>builderGraph :=
                    graph\<lparr>externalNodes := externalNodes graph @ [(packageName node, node)]\<rparr>\<rparr>)
         | Some existing \<Rightarrow>
             if existing = node then Inr builder
             else Inl (GenericError ''conflicting external node''))"

definition recordTarget :: "string \<Rightarrow> string \<Rightarrow> FileData \<Rightarrow> FileData" where
  "recordTarget path tgt f =
     (if filePath f = path
      then f\<lparr>deps := Some (set_add tgt (case deps f of None \<Rightarrow> [] | Some ds \<Rightarrow> ds))\<rparr>
      else f)"

definition recordFileDependency ::
  "string \<Rightarrow> string \<Rightarrow> string \<Rightarrow> bool \<Rightarrow> FileMap \<Rightarrow> FileMap" where
  "recordFileDependency src path tgt withNonProjectFiles fm =
     (case map_of (projectFileMap fm) src of
        Some fs \<Rightarrow>
          fm\<lparr>projectFileMap := AList.update src (map (recordTarget path tgt) fs) (projectFileMap fm)\<rparr>
      | None \<Rightarrow>
          if withNonProjectFiles
          then fm\<lparr>nonProjectFiles := map (recordTarget path tgt) (nonProjectFiles fm)\<rparr>
          else fm)"

definition addDependency ::
  "string \<Rightarrow> string \<Rightarrow> DependencyType \<Rightarrow> string option \<Rightarrow> ProjectGraphBuilder \<Rightarrow> Store \<Rightarrow>
   (Error + ProjectGraphBuilder) \<times> Store" where
  "addDependency src tgt ty sf builder store =
     (let graph = builderGraph builder
      in if \<not> knownEndpoint graph src then (Inl (GenericError ''source does not exist''), store)
         else if \<not> knownEndpoint graph tgt
         then (Inl (GenericError ''target does not exist''), store)
         else
           let edge = \<lparr>source = src, target = tgt, depType = ty, sourceFile = sf\<rparr>
           in if edge \<in> set (dependencies graph) then (Inr builder, store)
              else (Inr (builder\<lparr>builderGraph :=
                           graph\<lparr>dependencies := dependencies graph @ [edge]\<rparr>\<rparr>),
                    case sf of
                      None \<Rightarrow> store
                    | Some path \<Rightarrow>
                        store(builderFileMap builder :=
                          recordFileDependency src path tgt (builderHasNonProjectFiles builder)
                            (store (builderFileMap builder)))))"

definition getUpdatedProjectGraph :: "ProjectGraphBuilder \<Rightarrow> ProjectGraph" where
  "getUpdatedProjectGraph builder = builderGraph builder"

subsection \<open>Merging metadata\<close>

text \<open>
  Modelled from the spec: \<open>mergeMetadata\<close> of \<^verbatim>\<open>project-configuration-utils.ts\<close> is not
  among the sources. Every property of the new metadata is merged into the existing
  metadata: an array-typed property met by an array is concatenated, any other property
  is replaced by the new value; the source map, when the project has one, attributes
  the property to the source information of the call.
\<close>

definition mergeProperty ::
  "SourceInformation \<Rightarrow> string \<Rightarrow> string \<times> MetaValue \<Rightarrow> Metadata \<times> SourceMap option \<Rightarrow>
   Metadata \<times> SourceMap option" where
  "mergeProperty sourceInformation baseSourceMapPath property acc =
     (case (property, acc) of
        ((metadataKey, v), (result, sourceMap)) \<Rightarrow>
          (AList.update metadataKey
             (case (v, map_of result metadataKey) of
                (Items new, Some (Items existing)) \<Rightarrow> Items (existing @ new)
              | _ \<Rightarrow> v)
             result,
           map_option (AList.update (baseSourceMapPath @ ''.'' @ metadataKey) sourceInformation)
             sourceMap))"

definition mergeMetadata ::
  "SourceMap option \<Rightarrow> SourceInformation \<Rightarrow> string \<Rightarrow> Metadata \<Rightarrow> Metadata option \<Rightarrow>
   Metadata \<times> SourceMap option" where
  "mergeMetadata sourceMap sourceInformation baseSourceMapPath newMetadata matchingMetadata =
     fold (mergeProperty sourceInformation baseSourceMapPath) newMetadata
       (case matchingMetadata of None \<Rightarrow> [] | Some existing \<Rightarrow> existing, sourceMap)"

subsection \<open>The metadata phase\<close>

text \<open>
  \<open>applyProjectMetadata\<close>. \<open>metadataCalls\<close> are the invocations of \<open>createMetadata\<close>, made
  in the order of the provider list; the buffers \<open>results\<close> and \<open>errors\<close> are filled by
  the continuations, hence in settle order. \<open>applyResult\<close> is the body of the outer
  \<^verbatim>\<open>for\<close> loop over the buffer and \<open>applyToProject\<close> the body of the inner loop over the
  projects of one result.
\<close>

definition metadataCalls ::
  "ProjectGraph \<Rightarrow> LoadedNxPlugin list \<Rightarrow> CreateMetadataContext \<Rightarrow>
   (string \<times> ProjectsMetadata Promise) list" where
  "metadataCalls graph pluginList context =
     List.map_filter
       (\<lambda>p. case createMetadata p of
               None \<Rightarrow> None
             | Some create \<Rightarrow> Some (pluginName p, create graph context))
       pluginList"

fun metadataResults :: "(string \<times> ProjectsMetadata Promise) list \<Rightarrow> (ProjectsMetadata \<times> string) list" where
  "metadataResults [] = []"
| "metadataResults ((pn, (t, Inr m)) # calls) = (m, pn) # metadataResults calls"
| "metadataResults ((pn, (t, Inl e)) # calls) = metadataResults calls"

fun metadataErrors :: "(string \<times> ProjectsMetadata Promise) list \<Rightarrow> Error list" where
  "metadataErrors [] = []"
| "metadataErrors ((pn, (t, Inr m)) # calls) = metadataErrors calls"
| "metadataErrors ((pn, (t, Inl e)) # calls) = CreateMetadataError e pn # metadataErrors calls"

definition applyToProject ::
  "string \<Rightarrow> string \<times> Metadata \<Rightarrow> ProjectGraph \<times> ConfigurationSourceMaps \<Rightarrow>
   ProjectGraph \<times> ConfigurationSourceMaps" where
  "applyToProject pn entry acc =
     (case (entry, acc) of
        ((project, projectMetadata), (graph, sourceMap)) \<Rightarrow>
          (case map_of (nodes graph) project of
             None \<Rightarrow> (graph, sourceMap)
           | Some node \<Rightarrow>
               let projectConfiguration = data node;
                   (merged, projectSourceMap) =
                     mergeMetadata (map_of sourceMap project) (None, pn) ''metadata''
                       projectMetadata (metadata projectConfiguration)
               in (graph\<lparr>nodes := AList.update project
                            (node\<lparr>data := projectConfiguration\<lparr>metadata := Some merged\<rparr>\<rparr>)
                            (nodes graph)\<rparr>,
                   case projectSourceMap of
                     None \<Rightarrow> sourceMap
                   | Some sm \<Rightarrow> AList.update project sm sourceMap)))"

definition applyResult ::
  "ProjectsMetadata \<times> string \<Rightarrow> ProjectGraph \<times> ConfigurationSourceMaps \<Rightarrow>
   ProjectGraph \<times> ConfigurationSourceMaps" where
  "applyResult result acc =
     (case result of (projectsMetadata, pn) \<Rightarrow> fold (applyToProject pn) projectsMetadata acc)"

definition applyProjectMetadata ::
  "ProjectGraph \<Rightarrow> LoadedNxPlugin list \<Rightarrow> CreateMetadataContext \<Rightarrow> ConfigurationSourceMaps \<Rightarrow>
   Error list \<times> ProjectGraph \<times> ConfigurationSourceMaps" where
  "applyProjectMetadata graph pluginList context sourceMap =
     (let settled = settleOrder (metadataCalls graph pluginList context);
          results = metadataResults settled;
          errors = metadataErrors settled
      in (errors, fold applyResult results (graph, sourceMap)))"

subsection \<open>The dependency phase\<close>

text \<open>
  \<open>updateProjectGraphWithPlugins\<close>. \<open>addDependencies\<close> is the \<^verbatim>\<open>for\<close> loop that feeds
  the dependencies of one provider to the builder: it stops at the first
  \<open>addDependency\<close> that throws and keeps what was added before. \<open>processDependencies\<close>
  is the continuation of one provider's call, with its \<^verbatim>\<open>try\<close> and \<^verbatim>\<open>catch\<close>.
  \<open>dependencyPhase\<close> is the function up to the snapshot of the builder (lines 305 to
  390): the builder on the initial graph and on the file map of the context, all calls
  made in provider-list order on the store as it is then, and the continuations run in
  settle order. The store is threaded through, so that what the builder writes into
  the file map is there afterwards. The progress spinner has no effect on the result
  and is left out.
\<close>

fun addDependencies ::
  "ProjectGraphDependency list \<Rightarrow> ProjectGraphBuilder \<Rightarrow> Store \<Rightarrow>
   ProjectGraphBuilder \<times> Error option \<times> Store" where
  "addDependencies [] builder store = (builder, None, store)"
| "addDependencies (dep # ds) builder store =
     (case addDependency (source dep) (target dep) (depType dep) (sourceFile dep) builder store of
        (Inl cause, store') \<Rightarrow> (builder, Some cause, store')
      | (Inr builder', store') \<Rightarrow> addDependencies ds builder' store')"

definition dependencyCalls ::
  "CreateDependenciesContext \<Rightarrow> LoadedNxPlugin list \<Rightarrow> Store \<Rightarrow>
   (string \<times> ProjectGraphDependency list Promise) list" where
  "dependencyCalls context pluginList store =
     List.map_filter
       (\<lambda>p. case createDependencies p of
               None \<Rightarrow> None
             | Some create \<Rightarrow> Some (pluginName p, create context store))
       pluginList"

definition processDependencies ::
  "string \<times> ProjectGraphDependency list Promise \<Rightarrow>
   ProjectGraphBuilder \<times> Error list \<times> Store \<Rightarrow> ProjectGraphBuilder \<times> Error list \<times> Store" where
  "processDependencies call acc =
     (case (call, acc) of
        ((pn, (t, outcome)), (builder, errors, store)) \<Rightarrow>
          (case outcome of
             Inl cause \<Rightarrow> (builder, errors @ [ProcessDependenciesError pn cause], store)
           | Inr dependencyList \<Rightarrow>
               (case addDependencies dependencyList builder store of
                  (builder', None, store') \<Rightarrow> (builder', errors, store')
                | (builder', Some cause, store') \<Rightarrow>
                    (builder', errors @ [ProcessDependenciesError pn cause], store'))))"

definition dependencyPhase ::
  "CreateDependenciesContext \<Rightarrow> ProjectGraph \<Rightarrow> LoadedNxPlugin list \<Rightarrow> Store \<Rightarrow>
   ProjectGraphBuilder \<times> Error list \<times> Store" where
  "dependencyPhase context initProjectGraph pluginList store =
     (let graph = initProjectGraph;
          builder = newProjectGraphBuilder (Some graph) (ctxFileMap context) True
      in fold processDependencies (settleOrder (dependencyCalls context pluginList store))
           (builder, [], store))"

definition updateProjectGraphWithPlugins ::
  "string \<Rightarrow> CreateDependenciesContext \<Rightarrow> ProjectGraph \<Rightarrow> LoadedNxPlugin list \<Rightarrow>
   ConfigurationSourceMaps \<Rightarrow> Store \<Rightarrow>
   (Error + ProjectGraph) \<times> ConfigurationSourceMaps \<times> Store" where
  "updateProjectGraphWithPlugins wsRoot context initProjectGraph pluginList sourceMap store =
     (let (builder, errors, store') = dependencyPhase context initProjectGraph pluginList store;
          graphWithDeps = getUpdatedProjectGraph builder;
          (metadataErrs, updatedGraph, sourceMap') =
             applyProjectMetadata graphWithDeps pluginList
               (ctxNxJsonConfiguration context, wsRoot) sourceMap;
          errors = errors @ metadataErrs
      in if errors \<noteq> []
         then (Inl (AggregateProjectGraphError errors updatedGraph), sourceMap', store')
         else (Inr updatedGraph, sourceMap', store'))"

subsection \<open>Reuse of cached file data\<close>

text \<open>
  Modelled from the spec: \<^verbatim>\<open>nx-deps-cache.ts\<close> is not among the sources. The cache of
  the previous build holds the invalidation inputs it was computed from and, keyed by
  file path, the fingerprint and the resolved dependencies of every file.
\<close>

record FileMapCache =
  cachedDeps :: "(string \<times> string) list"
  cachedNxJson :: NxJsonConfiguration
  cachedTsConfig :: "string option"
  cachedProjectNames :: "string list"
  cachedFiles :: "(string \<times> FileData) list"

text \<open>
  Modelled from the spec: \<open>shouldRecomputeWholeGraph\<close> answers yes whenever the combined
  dependency manifest, the workspace configuration, the compiler root configuration or
  the set of project names changed since the cached snapshot.
\<close>

definition shouldRecomputeWholeGraph ::
  "FileMapCache \<Rightarrow> (string \<times> string) list \<Rightarrow> (string \<times> ProjectConfiguration) list \<Rightarrow>
   NxJsonConfiguration \<Rightarrow> string option \<Rightarrow> bool" where
  "shouldRecomputeWholeGraph cache packageJsonDeps projectMap nxJson tsConfig \<longleftrightarrow>
     (if set packageJsonDeps \<noteq> set (cachedDeps cache) then True
      else if nxJson \<noteq> cachedNxJson cache then True
      else if tsConfig \<noteq> cachedTsConfig cache then True
      else set (map fst projectMap) \<noteq> set (cachedProjectNames cache))"

text \<open>
  Modelled from the spec: \<open>extractCachedFileData\<close> splits the current file map. A file
  whose fingerprint equals the cached one is a hit, recorded in the lookup structure
  under its project and path with the cached entry; a file with another fingerprint or
  without a cached entry is to be processed.
\<close>

definition cacheHit :: "FileMapCache \<Rightarrow> FileData \<Rightarrow> FileData option" where
  "cacheHit cache f =
     (case map_of (cachedFiles cache) (filePath f) of
        None \<Rightarrow> None
      | Some cached \<Rightarrow> if hash cached = hash f then Some cached else None)"

definition hitsOf :: "FileMapCache \<Rightarrow> FileData list \<Rightarrow> (string \<times> FileData) list" where
  "hitsOf cache fs =
     List.map_filter (\<lambda>f. map_option (\<lambda>cached. (filePath f, cached)) (cacheHit cache f)) fs"

definition missesOf :: "FileMapCache \<Rightarrow> FileData list \<Rightarrow> FileData list" where
  "missesOf cache fs = filter (\<lambda>f. cacheHit cache f = None) fs"

definition extractCachedFileData :: "FileMap \<Rightarrow> FileMapCache \<Rightarrow> FileMap \<times> CachedFileData" where
  "extractCachedFileData fm cache =
     (\<lparr>nonProjectFiles = missesOf cache (nonProjectFiles fm),
       projectFileMap = map (\<lambda>(p, fs). (p, missesOf cache fs)) (projectFileMap fm)\<rparr>,
      \<lparr>cachedNonProjectFiles = hitsOf cache (nonProjectFiles fm),
       cachedProjectFileMap = map (\<lambda>(p, fs). (p, hitsOf cache fs)) (projectFileMap fm)\<rparr>)"

subsection \<open>The process-wide file map\<close>

text \<open>
  The three module-level variables. \<open>storedFileMap\<close> holds the file map object that
  the build received, by its address: whatever is later written into that object is
  read through the stored address. \<open>getFileMap\<close> returns the stored object itself, or
  a new empty one when none is stored.
\<close>

type_synonym NxWorkspaceFilesExternals = string

record StoredState =
  storedFileMap :: "ref option"
  storedAllWorkspaceFiles :: "FileData list option"
  storedRustReferences :: "NxWorkspaceFilesExternals option"

definition initialState :: StoredState where
  "initialState =
     \<lparr>storedFileMap = None, storedAllWorkspaceFiles = None, storedRustReferences = None\<rparr>"

definition getFileMap ::
  "StoredState \<Rightarrow> FileMapObject \<times> FileData list option \<times> NxWorkspaceFilesExternals option" where
  "getFileMap s =
     (case storedFileMap s of
        Some r \<Rightarrow> (ObjectAt r, storedAllWorkspaceFiles s, storedRustReferences s)
      | None \<Rightarrow> (NewObject \<lparr>nonProjectFiles = [], projectFileMap = []\<rparr>, Some [], None))"

subsection \<open>The top-level build\<close>

text \<open>
  The collaborators of the build that are not among the sources are the fields of the
  environment: the workspace configuration that \<open>readNxJson\<close> returns, the validity
  check (\<open>Some e\<close> when it throws \<open>e\<close>), the two package manifests (\<open>None\<close> when the file
  does not exist), the compiler configuration path and the JSON reader behind
  \<open>readRootTsConfig\<close>, and the three graph helpers, which return \<open>Inl\<close> when they throw.
  Node normalisation adds nodes and the implicit dependencies have no originating
  file: the two helpers change the graph of the builder they are given.
\<close>

record BuildEnv =
  envNxJson :: NxJsonConfiguration
  envWorkspaceRoot :: string
  assertWorkspaceValidity ::
    "(string \<times> ProjectConfiguration) list \<Rightarrow> NxJsonConfiguration \<Rightarrow> Error option"
  installationPackageJson :: "PackageJson option"
  rootPackageJson :: "PackageJson option"
  getRootTsConfigPath :: "Error + string option"
  readJsonFile :: "string \<Rightarrow> Error + string"
  normalizeProjectNodes ::
    "CreateDependenciesContext \<Rightarrow> ProjectGraphBuilder \<Rightarrow> Error + ProjectGraphBuilder"
  applyImplicitDependencies ::
    "(string \<times> ProjectConfiguration) list \<Rightarrow> ProjectGraphBuilder \<Rightarrow> Error + ProjectGraphBuilder"
  createProjectFileMapCache ::
    "NxJsonConfiguration \<Rightarrow> (string \<times> string) list \<Rightarrow> FileMap \<Rightarrow> string option \<Rightarrow>
     Error + FileMapCache"

fun isWorkspaceValidityError :: "Error \<Rightarrow> bool" where
  "isWorkspaceValidityError (WorkspaceValidityError msg) = True"
| "isWorkspaceValidityError _ = False"

text \<open>Object spread: the properties of an object, if there is one, written over \<open>acc\<close>.\<close>

definition spread :: "(string \<times> string) list option \<Rightarrow> (string \<times> string) list \<Rightarrow> (string \<times> string) list" where
  "spread obj acc = fold (\<lambda>(k, v). AList.update k v) (case obj of None \<Rightarrow> [] | Some kvs \<Rightarrow> kvs) acc"

definition readCombinedDeps :: "BuildEnv \<Rightarrow> (string \<times> string) list" where
  "readCombinedDeps env =
     (let emptyJson = \<lparr>pkgDependencies = None, pkgDevDependencies = None\<rparr>;
          installationJson = (case installationPackageJson env of None \<Rightarrow> emptyJson | Some j \<Rightarrow> j);
          rootJson = (case rootPackageJson env of None \<Rightarrow> emptyJson | Some j \<Rightarrow> j)
      in spread (pkgDevDependencies installationJson)
           (spread (pkgDependencies installationJson)
              (spread (pkgDevDependencies rootJson)
                 (spread (pkgDependencies rootJson) []))))"

definition readRootTsConfig :: "BuildEnv \<Rightarrow> string option" where
  "readRootTsConfig env =
     (case getRootTsConfigPath env of
        Inl e \<Rightarrow> Some ''{}''
      | Inr None \<Rightarrow> None
      | Inr (Some tsConfigPath) \<Rightarrow>
          if tsConfigPath = [] then None
          else (case readJsonFile env tsConfigPath of
                  Inl e \<Rightarrow> Some ''{}''
                | Inr json \<Rightarrow> Some json))"

definition createContext ::
  "string \<Rightarrow> (string \<times> ProjectConfiguration) list \<Rightarrow> NxJsonConfiguration \<Rightarrow>
   (string \<times> ProjectGraphExternalNode) list \<Rightarrow> ref \<Rightarrow> FileMapObject \<Rightarrow>
   CreateDependenciesContext" where
  "createContext wsRoot projectMap nxJson extNodes fileMap filesToProcess =
     \<lparr>ctxNxJsonConfiguration = nxJson, ctxProjects = projectMap, ctxExternalNodes = extNodes,
      ctxWorkspaceRoot = wsRoot, ctxFileMap = fileMap, ctxFilesToProcess = filesToProcess\<rparr>"

text \<open>
  Lines 117 to 138 of the build: which files the providers are asked to process. Without
  reuse it is the file map object itself; with reuse it is the new object that
  \<open>extractCachedFileData\<close> makes from the content of the file map.
\<close>

definition selectFilesToProcess ::
  "FileMapCache option \<Rightarrow> (string \<times> string) list \<Rightarrow> (string \<times> ProjectConfiguration) list \<Rightarrow>
   NxJsonConfiguration \<Rightarrow> string option \<Rightarrow> ref \<Rightarrow> Store \<Rightarrow> FileMapObject \<times> CachedFileData" where
  "selectFilesToProcess fileMapCache packageJsonDeps projectMap nxJson rootTsConfig fileMap store =
     (case fileMapCache of
        None \<Rightarrow> (ObjectAt fileMap, \<lparr>cachedNonProjectFiles = [], cachedProjectFileMap = []\<rparr>)
      | Some cache \<Rightarrow>
          if \<not> shouldRecomputeWholeGraph cache packageJsonDeps projectMap nxJson rootTsConfig
          then (let fromCache = extractCachedFileData (store fileMap) cache
                in (NewObject (fst fromCache), snd fromCache))
          else (ObjectAt fileMap, \<lparr>cachedNonProjectFiles = [], cachedProjectFileMap = []\<rparr>))"

text \<open>
  The two loops of \<open>buildProjectGraphUsingContext\<close> that copy the cached dependency
  lists onto the files of the file map.
\<close>

definition withCachedDeps :: "(string \<times> FileData) list \<Rightarrow> FileData \<Rightarrow> FileData" where
  "withCachedDeps cachedOfBucket f =
     (case map_of cachedOfBucket (filePath f) of
        None \<Rightarrow> f
      | Some cached \<Rightarrow> (case deps cached of None \<Rightarrow> f | Some ds \<Rightarrow> f\<lparr>deps := Some ds\<rparr>))"

definition copyCachedDeps :: "CachedFileData \<Rightarrow> FileMap \<Rightarrow> FileMap" where
  "copyCachedDeps cachedFileData fm =
     \<lparr>nonProjectFiles =
        map (withCachedDeps (cachedNonProjectFiles cachedFileData)) (nonProjectFiles fm),
      projectFileMap =
        fold (\<lambda>(proj, cachedOfProj) pfm.
                case map_of pfm proj of
                  None \<Rightarrow> pfm
                | Some fs \<Rightarrow> AList.update proj (map (withCachedDeps cachedOfProj) fs) pfm)
          (cachedProjectFileMap cachedFileData) (projectFileMap fm)\<rparr>"

fun addExternalNodes ::
  "ProjectGraphExternalNode list \<Rightarrow> ProjectGraphBuilder \<Rightarrow> Error + ProjectGraphBuilder" where
  "addExternalNodes [] builder = Inr builder"
| "addExternalNodes (node # ns) builder =
     (case addExternalNode node builder of
        Inl e \<Rightarrow> Inl e
      | Inr builder' \<Rightarrow> addExternalNodes ns builder')"

text \<open>
  \<open>buildProjectGraphUsingContext\<close> returns its outcome together with the source map and
  the store after the call, both of which it updates in place. The copy loops write
  into the file map of the context.
\<close>

definition buildProjectGraphUsingContext ::
  "BuildEnv \<Rightarrow> (string \<times> ProjectGraphExternalNode) list \<Rightarrow> CreateDependenciesContext \<Rightarrow>
   CachedFileData \<Rightarrow> string \<Rightarrow> LoadedNxPlugin list \<Rightarrow> ConfigurationSourceMaps \<Rightarrow> Store \<Rightarrow>
   (Error + ProjectGraph) \<times> ConfigurationSourceMaps \<times> Store" where
  "buildProjectGraphUsingContext env extNodes ctx cachedFileData projectGraphVersion pluginList
       sourceMap store =
     (let builder = setVersion projectGraphVersion
                      (newProjectGraphBuilder None (ctxFileMap ctx) False)
      in case addExternalNodes (map snd extNodes) builder of
           Inl e \<Rightarrow> (Inl e, sourceMap, store)
         | Inr builder \<Rightarrow>
         (case normalizeProjectNodes env ctx builder of
           Inl e \<Rightarrow> (Inl e, sourceMap, store)
         | Inr builder \<Rightarrow>
         (let initProjectGraph = getUpdatedProjectGraph builder;
              (r, sourceMap', store') =
                 updateProjectGraphWithPlugins (envWorkspaceRoot env) ctx initProjectGraph
                   pluginList sourceMap store
          in case (case r of
                     Inr g \<Rightarrow> Inr (g, None)
                   | Inl (AggregateProjectGraphError es partialProjectGraph) \<Rightarrow>
                       Inr (partialProjectGraph, Some es)
                   | Inl e \<Rightarrow> Inl e) of
               Inl e \<Rightarrow> (Inl e, sourceMap', store')
             | Inr (updatedGraph, error) \<Rightarrow>
             (let updatedBuilder =
                    newProjectGraphBuilder (Some updatedGraph) (ctxFileMap ctx) False;
                  store'' = store'(ctxFileMap ctx :=
                              copyCachedDeps cachedFileData (store' (ctxFileMap ctx)))
              in case applyImplicitDependencies env (ctxProjects ctx) updatedBuilder of
                   Inl e \<Rightarrow> (Inl e, sourceMap', store'')
                 | Inr updatedBuilder \<Rightarrow>
                     (let finalGraph = getUpdatedProjectGraph updatedBuilder
                      in (case error of
                            None \<Rightarrow> Inr finalGraph
                          | Some es \<Rightarrow> Inl (AggregateProjectGraphError es finalGraph),
                          sourceMap', store''))))))"

text \<open>
  Lines 114 to 163 of the top-level build: the invalidation inputs, the choice of the
  files to process and the \<^verbatim>\<open>try\<close> block with the graph phases and the new cache.
  \<open>buildContext\<close> is the context that the build hands to the graph phases and, through
  them, to the providers.
\<close>

definition buildContext ::
  "BuildEnv \<Rightarrow> (string \<times> ProjectConfiguration) list \<Rightarrow> (string \<times> ProjectGraphExternalNode) list \<Rightarrow>
   ref \<Rightarrow> FileMapCache option \<Rightarrow> Store \<Rightarrow> CreateDependenciesContext" where
  "buildContext env projectMap extNodes fileMap fileMapCache store =
     createContext (envWorkspaceRoot env) projectMap (envNxJson env) extNodes fileMap
       (fst (selectFilesToProcess fileMapCache (readCombinedDeps env) projectMap (envNxJson env)
               (readRootTsConfig env) fileMap store))"

definition graphPhases ::
  "BuildEnv \<Rightarrow> (string \<times> ProjectConfiguration) list \<Rightarrow> (string \<times> ProjectGraphExternalNode) list \<Rightarrow>
   ref \<Rightarrow> FileMapCache option \<Rightarrow> LoadedNxPlugin list \<Rightarrow> ConfigurationSourceMaps \<Rightarrow> Store \<Rightarrow>
   (Error + ProjectGraph \<times> FileMapCache) \<times> ConfigurationSourceMaps \<times> Store" where
  "graphPhases env projectMap extNodes fileMap fileMapCache pluginList sourceMap store =
     (let nxJson = envNxJson env;
          projectGraphVersion = ''6.0'';
          packageJsonDeps = readCombinedDeps env;
          rootTsConfig = readRootTsConfig env;
          cachedFileData =
             snd (selectFilesToProcess fileMapCache packageJsonDeps projectMap nxJson
                    rootTsConfig fileMap store);
          context = buildContext env projectMap extNodes fileMap fileMapCache store;
          (r, sourceMap', store') =
             buildProjectGraphUsingContext env extNodes context cachedFileData
               projectGraphVersion pluginList sourceMap store
      in case r of
           Inl e \<Rightarrow> (Inl e, sourceMap', store')
         | Inr projectGraph \<Rightarrow>
             (case createProjectFileMapCache env nxJson packageJsonDeps (store' fileMap)
                     rootTsConfig of
                Inl e \<Rightarrow> (Inl e, sourceMap', store')
              | Inr projectFileMapCache \<Rightarrow>
                  (Inr (projectGraph, projectFileMapCache), sourceMap', store')))"

text \<open>
  \<open>buildProjectGraphUsingProjectFileMap\<close> returns its outcome, the module state it
  leaves, the source map and the store.
\<close>

definition buildProjectGraphUsingProjectFileMap ::
  "BuildEnv \<Rightarrow> (string \<times> ProjectConfiguration) list \<Rightarrow>
   (string \<times> ProjectGraphExternalNode) list \<Rightarrow> ref \<Rightarrow> FileData list \<Rightarrow>
   NxWorkspaceFilesExternals \<Rightarrow> FileMapCache option \<Rightarrow> LoadedNxPlugin list \<Rightarrow>
   ConfigurationSourceMaps \<Rightarrow> Store \<Rightarrow>
   (Error + ProjectGraph \<times> FileMapCache) \<times> StoredState \<times> ConfigurationSourceMaps \<times> Store" where
  "buildProjectGraphUsingProjectFileMap env projectRootMap extNodes fileMap allWorkspaceFiles
       rustReferences fileMapCache pluginList sourceMap store =
     (let stored = \<lparr>storedFileMap = Some fileMap,
                    storedAllWorkspaceFiles = Some allWorkspaceFiles,
                    storedRustReferences = Some rustReferences\<rparr>;
          projectMap =
            fold (\<lambda>(rootPath, project). AList.update (name project) project) projectRootMap [];
          errors =
            (case assertWorkspaceValidity env projectMap (envNxJson env) of
               None \<Rightarrow> []
             | Some e \<Rightarrow> if isWorkspaceValidityError e then [e] else []);
          (r, sourceMap', store') =
            graphPhases env projectMap extNodes fileMap fileMapCache pluginList sourceMap store
      in (case r of
            Inl (AggregateProjectGraphError es partialProjectGraph) \<Rightarrow>
              Inl (AggregateProjectGraphError (errors @ es) partialProjectGraph)
          | Inl e \<Rightarrow> Inl e
          | Inr (projectGraph, projectFileMapCache) \<Rightarrow>
              if errors \<noteq> [] then Inl (AggregateProjectGraphError errors projectGraph)
              else Inr (projectGraph, projectFileMapCache),
          stored, sourceMap', store'))"

subsection \<open>A small workspace\<close>

text \<open>
  Two projects \<open>a\<close> and \<open>b\<close>, and providers with fixed behaviour, used to evaluate the
  build on concrete inputs.
\<close>

definition projectA :: ProjectConfiguration where
  "projectA = \<lparr>name = ''a'', root = ''libs/a'', metadata = None\<rparr>"

definition projectB :: ProjectConfiguration where
  "projectB = \<lparr>name = ''b'', root = ''libs/b'', metadata = None\<rparr>"

definition twoProjects :: "(string \<times> ProjectConfiguration) list" where
  "twoProjects = [(''libs/a'', projectA), (''libs/b'', projectB)]"

definition twoProjectGraph :: ProjectGraph where
  "twoProjectGraph =
     \<lparr>nodes = [(''a'', \<lparr>data = projectA\<rparr>), (''b'', \<lparr>data = projectB\<rparr>)],
      externalNodes = [], dependencies = [], graphVersion = Some ''6.0''\<rparr>"

definition twoSourceMaps :: ConfigurationSourceMaps where
  "twoSourceMaps = [(''a'', []), (''b'', [])]"

definition emptyNxJson :: NxJsonConfiguration where
  "emptyNxJson = \<lparr>plugins = None, otherSettings = ''{}''\<rparr>"

definition oneFileMap :: FileMap where
  "oneFileMap =
     \<lparr>nonProjectFiles = [],
      projectFileMap = [(''a'', [\<lparr>filePath = ''libs/a/index.ts'', hash = ''h1'', deps = None\<rparr>]),
                        (''b'', [])]\<rparr>"

definition twoContext :: CreateDependenciesContext where
  "twoContext = createContext ''/ws'' [(''a'', projectA), (''b'', projectB)] emptyNxJson []
                  0 (ObjectAt 0)"

text \<open>The store in which the file map of the small workspace is the object at address 0.\<close>

definition oneStore :: Store where
  "oneStore = (\<lambda>r. oneFileMap)"

text \<open>The file map of the small workspace once the edge from \<open>a\<close> to \<open>b\<close> is recorded.\<close>

definition oneFileMapWithDeps :: FileMap where
  "oneFileMapWithDeps =
     \<lparr>nonProjectFiles = [],
      projectFileMap =
        [(''a'', [\<lparr>filePath = ''libs/a/index.ts'', hash = ''h1'', deps = Some [''b'']\<rparr>]),
         (''b'', [])]\<rparr>"


definition edgeAB :: ProjectGraphDependency where
  "edgeAB = \<lparr>source = ''a'', target = ''b'', depType = Static,
             sourceFile = Some ''libs/a/index.ts''\<rparr>"

text \<open>A provider whose \<open>createDependencies\<close> rejects.\<close>

definition failingDepsPlugin :: LoadedNxPlugin where
  "failingDepsPlugin =
     \<lparr>pluginName = ''failing'',
      createDependencies = Some (\<lambda>ctx store. (0, Inl (GenericError ''no dependencies''))),
      createMetadata = None\<rparr>"

text \<open>A provider that contributes the edge from \<open>a\<close> to \<open>b\<close>.\<close>

definition edgePlugin :: LoadedNxPlugin where
  "edgePlugin =
     \<lparr>pluginName = ''edges'',
      createDependencies = Some (\<lambda>ctx store. (0, Inr [edgeAB])),
      createMetadata = None\<rparr>"

text \<open>A provider that contributes the same edge and whose \<open>createMetadata\<close> rejects.\<close>

definition edgeNoMetadataPlugin :: LoadedNxPlugin where
  "edgeNoMetadataPlugin =
     \<lparr>pluginName = ''edges'',
      createDependencies = Some (\<lambda>ctx store. (0, Inr [edgeAB])),
      createMetadata = Some (\<lambda>g ctx. (0, Inl (GenericError ''no metadata'')))\<rparr>"

text \<open>
  Two metadata providers that set the description of project \<open>a\<close>; the first of the
  list settles after the second.
\<close>

definition slowPlugin :: LoadedNxPlugin where
  "slowPlugin =
     \<lparr>pluginName = ''slow'',
      createDependencies = None,
      createMetadata = Some (\<lambda>g ctx. (2, Inr [(''a'', [(''description'', Scalar ''from slow'')])]))\<rparr>"

definition fastPlugin :: LoadedNxPlugin where
  "fastPlugin =
     \<lparr>pluginName = ''fast'',
      createDependencies = None,
      createMetadata = Some (\<lambda>g ctx. (1, Inr [(''a'', [(''description'', Scalar ''from fast'')])]))\<rparr>"

text \<open>
  An environment in which the validity check throws a validity error; in
  \<open>brokenEnv\<close> the node normalisation throws as well, with a plain error.
\<close>

definition invalidEnv :: BuildEnv where
  "invalidEnv =
     \<lparr>envNxJson = emptyNxJson,
      envWorkspaceRoot = ''/ws'',
      assertWorkspaceValidity = (\<lambda>ps nx. Some (WorkspaceValidityError ''invalid workspace'')),
      installationPackageJson = None,
      rootPackageJson = Some \<lparr>pkgDependencies = Some [(''nx'', ''19.0.0'')],
                               pkgDevDependencies = None\<rparr>,
      getRootTsConfigPath = Inr None,
      readJsonFile = (\<lambda>p. Inl (GenericError ''no such file'')),
      normalizeProjectNodes =
        (\<lambda>ctx builder.
           Inr (builder\<lparr>builderGraph :=
                  (builderGraph builder)\<lparr>nodes := map (\<lambda>(n, p). (n, \<lparr>data = p\<rparr>))
                                                     (ctxProjects ctx)\<rparr>\<rparr>)),
      applyImplicitDependencies = (\<lambda>ps builder. Inr builder),
      createProjectFileMapCache =
        (\<lambda>nx ds fm ts. Inr \<lparr>cachedDeps = ds, cachedNxJson = nx, cachedTsConfig = ts,
                            cachedProjectNames = map fst (projectFileMap fm),
                            cachedFiles = map (\<lambda>f. (filePath f, f))
                              (nonProjectFiles fm @ concat (map snd (projectFileMap fm)))\<rparr>)\<rparr>"

definition brokenEnv :: BuildEnv where
  "brokenEnv =
     invalidEnv\<lparr>normalizeProjectNodes := (\<lambda>ctx builder. Inl (GenericError ''cannot normalize''))\<rparr>"

text \<open>Two known external nodes of the same name with different versions.\<close>

definition conflictingExternalNodes :: "(string \<times> ProjectGraphExternalNode) list" where
  "conflictingExternalNodes =
     [(''npm:left-pad'', \<lparr>packageName = ''npm:left-pad'', version = ''1.0.0''\<rparr>),
      (''npm:left-pad@2'', \<lparr>packageName = ''npm:left-pad'', version = ''2.0.0''\<rparr>)]"


subsection \<open>Reading the partition of the file map\<close>



subsection \<open>Reading the merged graph\<close>

definition metadataValue :: "ProjectGraph \<Rightarrow> string \<Rightarrow> string \<Rightarrow> MetaValue option" where
  "metadataValue graph project property =
     (case map_of (nodes graph) project of
        None \<Rightarrow> None
      | Some node \<Rightarrow>
          (case metadata (data node) of
             None \<Rightarrow> None
           | Some md \<Rightarrow> map_of md property))"

definition attribution ::
  "ConfigurationSourceMaps \<Rightarrow> string \<Rightarrow> string \<Rightarrow> SourceInformation option" where
  "attribution sourceMap project property =
     (case map_of sourceMap project of
        None \<Rightarrow> None
      | Some projectSourceMap \<Rightarrow> map_of projectSourceMap (''metadata.'' @ property))"

text \<open>The instant at which a call settles.\<close>

definition settleTime :: "string \<times> 'a Promise \<Rightarrow> nat" where
  "settleTime call = fst (snd call)"

text \<open>
  A provider throws in the dependency phase when its call rejects or when the builder
  refuses one of its dependencies.
\<close>

definition throwsInDependencyPhase ::
  "ProjectGraph \<Rightarrow> string \<times> ProjectGraphDependency list Promise \<Rightarrow> bool" where
  "throwsInDependencyPhase graph call =
     (case snd (snd call) of
        Inl cause \<Rightarrow> True
      | Inr ds \<Rightarrow> \<exists>d \<in> set ds. \<not> knownEndpoint graph (source d) \<or> \<not> knownEndpoint graph (target d))"


subsection \<open>Reading the file map\<close>

text \<open>
  The paths and fingerprints of a file map, list by list: what a file map keeps when
  only the dependency lists of its files are written.
\<close>

definition pathAndHash :: "FileData \<Rightarrow> string \<times> string" where
  "pathAndHash f = (filePath f, hash f)"

definition fingerprints ::
  "FileMap \<Rightarrow> (string \<times> string) list \<times> (string \<times> (string \<times> string) list) list" where
  "fingerprints fm =
     (map pathAndHash (nonProjectFiles fm),
      map (\<lambda>(p, fs). (p, map pathAndHash fs)) (projectFileMap fm))"

text \<open>A call rejects when the outcome of its promise is a rejection.\<close>

definition rejects :: "string \<times> 'a Promise \<Rightarrow> bool" where
  "rejects call = (case snd (snd call) of Inl cause \<Rightarrow> True | Inr v \<Rightarrow> False)"

subsection \<open>Reading a run of the build\<close>

section \<open>Properties of the compatibility probe\<close>

lemma set_truthyStrings: "set (truthyStrings fs) = {f. Some f \<in> set fs} - {[]}"
  by (induction fs rule: truthyStrings.induct) auto

lemma citedFiles_aggregate:
  "citedFiles (AggregateCreateNodesError errors pn) = {f. Some f \<in> fst ` set errors} - {[]}"
proof -
  have "set (List.map_filter fst errors) = {f. Some f \<in> fst ` set errors}"
    by (induction errors) (auto split: option.splits)
  then show ?thesis by simp
qed

declare citedFiles.simps(1) [simp del]

declare citedFiles_aggregate [simp]

lemma findPluginAndFilesWithError_Some:
  "findPluginAndFilesWithError e = Some (pn, fs) \<Longrightarrow>
     citedProvider e = Some pn \<and> pn \<noteq> [] \<and> fs \<noteq> [] \<and> set fs = citedFiles e"
  by (cases e) (force simp: findPluginAndFilesWithError_def set_truthyStrings Let_def
      split: option.splits if_splits)+

lemma truthyStrings_Nil: "truthyStrings fs = [] \<Longrightarrow> {f. Some f \<in> set fs} - {[]} = {}"
  using set_truthyStrings [of fs] by simp

lemma findPluginAndFilesWithError_None:
  "findPluginAndFilesWithError e = None \<Longrightarrow>
     citedProvider e = None \<or> citedProvider e = Some [] \<or> citedFiles e = {}"
proof (cases e)
  case (AggregateCreateNodesError errors pn)
  assume "findPluginAndFilesWithError e = None"
  then show ?thesis
    using truthyStrings_Nil [of "map fst errors"]
    by (auto simp: AggregateCreateNodesError findPluginAndFilesWithError_def Let_def
        split: option.splits if_splits)
next
  case (MergeNodesError f pn cause)
  assume "findPluginAndFilesWithError e = None"
  then show ?thesis
    by (auto simp: MergeNodesError findPluginAndFilesWithError_def split: if_splits)
qed simp_all

lemma set_fold_set_add: "set (fold set_add fs s) = set s \<union> set fs"
  by (induction fs arbitrary: s) (auto simp: set_add_def)

lemma lookupSet_update: "lookupSet (AList.update k v m) k = v"
  by (simp add: lookupSet_def AList.update_conv')

lemma map_of_fold_add:
  "map_of (fold (\<lambda>f acc. AList.update pn (set_add f (lookupSet acc pn)) acc) fs m) p =
     (if p = pn \<and> fs \<noteq> [] then Some (fold set_add fs (lookupSet m pn)) else map_of m p)"
proof (induction fs arbitrary: m)
  case Nil
  show ?case by simp
next
  case (Cons f fs)
  show ?case
    by (simp add: Cons.IH AList.update_conv' lookupSet_update)
qed

lemma collectError_lookup:
  assumes "citedProvider e \<notin> Some ` set objectPrototypeKeys"
  shows "\<exists>m'. collectError e m = Inr m'
           \<and> (\<forall>p. map_option set (map_of m' p) =
                 (if citedProvider e = Some p \<and> p \<noteq> [] \<and> citedFiles e \<noteq> {}
                  then Some (set (lookupSet m p) \<union> citedFiles e)
                  else map_option set (map_of m p)))"
proof (cases "findPluginAndFilesWithError e")
  case None
  from findPluginAndFilesWithError_None [OF None] show ?thesis
    by (auto simp: collectError_def None)
next
  case (Some r)
  obtain pn fs where r: "r = (pn, fs)" by (cases r)
  from findPluginAndFilesWithError_Some [OF Some [unfolded r]]
  have f: "citedProvider e = Some pn" "pn \<noteq> []" "fs \<noteq> []" "set fs = citedFiles e" by auto
  from f have ne: "citedFiles e \<noteq> {}" by (metis set_empty)
  from assms f(1) have ord: "pn \<notin> set objectPrototypeKeys" by auto
  define m1 where "m1 = (case map_of m pn of None \<Rightarrow> AList.update pn [] m | Some s \<Rightarrow> m)"
  define m' where
    "m' = fold (\<lambda>f acc. AList.update pn (set_add f (lookupSet acc pn)) acc) fs m1"
  have c: "collectError e m = Inr m'"
    using f ord by (simp add: collectError_def Some r m1_def m'_def)
  have l: "set (lookupSet m1 pn) = set (lookupSet m pn)"
    by (auto simp: m1_def lookupSet_update split: option.splits) (simp add: lookupSet_def)
  have o: "p \<noteq> pn \<Longrightarrow> map_of m1 p = map_of m p" for p
    by (auto simp: m1_def AList.update_conv' split: option.splits)
  have "map_option set (map_of m' p) =
          (if citedProvider e = Some p \<and> p \<noteq> [] \<and> citedFiles e \<noteq> {}
           then Some (set (lookupSet m p) \<union> citedFiles e)
           else map_option set (map_of m p))" for p
  proof (cases "p = pn")
    case True
    then show ?thesis using f l ne by (simp add: m'_def map_of_fold_add set_fold_set_add)
  next
    case False
    then show ?thesis using f o [of p] by (auto simp: m'_def map_of_fold_add)
  qed
  with c show ?thesis by blast
qed

lemma collectErrors_lookup:
  assumes "\<forall>e \<in> set es. citedProvider e \<notin> Some ` set objectPrototypeKeys"
  shows "\<exists>m'. collectErrors es m = Inr m'
           \<and> (\<forall>p. map_option set (map_of m' p) =
                 (let S = (if p = [] then {} else offendingFiles p es)
                  in case map_of m p of
                       Some s \<Rightarrow> Some (set s \<union> S)
                     | None \<Rightarrow> if S \<noteq> {} then Some S else None))"
  using assms
proof (induction es arbitrary: m)
  case Nil
  show ?case by (simp add: offendingFiles_def split: option.splits)
next
  case (Cons e es)
  from Cons.prems have oe: "citedProvider e \<notin> Some ` set objectPrototypeKeys"
    and oes: "\<forall>e \<in> set es. citedProvider e \<notin> Some ` set objectPrototypeKeys"
    by simp_all
  from collectError_lookup [OF oe, of m]
  obtain m1 where c1: "collectError e m = Inr m1"
    and l1: "\<And>p. map_option set (map_of m1 p) =
                 (if citedProvider e = Some p \<and> p \<noteq> [] \<and> citedFiles e \<noteq> {}
                  then Some (set (lookupSet m p) \<union> citedFiles e)
                  else map_option set (map_of m p))"
    by blast
  from Cons.IH [OF oes, of m1]
  obtain m' where c2: "collectErrors es m1 = Inr m'"
    and l2: "\<And>p. map_option set (map_of m' p) =
                 (let S = (if p = [] then {} else offendingFiles p es)
                  in case map_of m1 p of
                       Some s \<Rightarrow> Some (set s \<union> S)
                     | None \<Rightarrow> if S \<noteq> {} then Some S else None)"
    by blast
  have u: "offendingFiles p (e # es) =
      (if citedProvider e = Some p then citedFiles e else {}) \<union> offendingFiles p es" for p
    by (auto simp: offendingFiles_def)
  have "map_option set (map_of m' p) =
                 (let S = (if p = [] then {} else offendingFiles p (e # es))
                  in case map_of m p of
                       Some s \<Rightarrow> Some (set s \<union> S)
                     | None \<Rightarrow> if S \<noteq> {} then Some S else None)" for p
    using l1 [of p]
    by (cases "map_of m1 p"; cases "map_of m p")
       (auto simp: l2 u lookupSet_def Let_def split: if_splits)
  with c1 c2 show ?case by simp
qed

text \<open>
  For provider names that are not inherited keys the probe reports what it is meant to:
  the entry of a provider is the union of the files cited by the create-nodes
  aggregates and merge errors that implicate it, and a provider with no cited file has
  no entry.
\<close>

lemma checkCompatibleWithPlugins_ordinary_names:
  assumes "loadNxPlugins pluginList rootDir = Inr (nxPlugins, cleanup)"
    and "readNxJson workspaceRoot = Inr nxJson"
    and "retrieveProjectConfigurations nxPlugins projectRootPathToCheck nxJson
           = Inl (ProjectConfigurationsError errors)"
    and "es = (case errors of None \<Rightarrow> [] | Some l \<Rightarrow> l)"
    and "\<forall>e \<in> set es. citedProvider e \<notin> Some ` set objectPrototypeKeys"
  shows "\<exists>m. checkCompatibleWithPlugins loadNxPlugins retrieveProjectConfigurations
               readNxJson workspaceRoot pluginList projectRootPathToCheck rootDir = Inr m
           \<and> (\<forall>p. map_option set (map_of m p) =
                 (if p \<noteq> [] \<and> offendingFiles p es \<noteq> {}
                  then Some (offendingFiles p es) else None))"
proof -
  have r: "checkCompatibleWithPlugins loadNxPlugins retrieveProjectConfigurations
               readNxJson workspaceRoot pluginList projectRootPathToCheck rootDir
           = collectErrors es []"
    using assms(1-4) by (simp add: checkCompatibleWithPlugins_def)
  from collectErrors_lookup [OF assms(5), of "[]"]
  obtain m where c: "collectErrors es [] = Inr m"
    and l: "\<And>p. map_option set (map_of m p) =
                 (let S = (if p = [] then {} else offendingFiles p es)
                  in case map_of [] p of
                       Some s \<Rightarrow> Some (set s \<union> S)
                     | None \<Rightarrow> if S \<noteq> {} then Some S else None)"
    by blast
  have "map_option set (map_of m p) =
          (if p \<noteq> [] \<and> offendingFiles p es \<noteq> {} then Some (offendingFiles p es) else None)"
    for p
    using l [of p] by (simp add: Let_def)
  with c show ?thesis by (simp add: r)
qed

lemma mixedScenario_mapping:
  "checkCompatibleWithPlugins loadsFine
       (retrievalFailsWith (ProjectConfigurationsError (Some mixedScenario))) readsNxJson
       ''/ws'' [PluginName ''plugin1'', PluginName ''plugin2''] ''projectRootPathToCheck''
       ''/tmp''
     = Inr [(''plugin1'', [''file1'', ''file2'']),
            (''plugin2'', [''file2'', ''file3'', ''file4''])]"
  by code_simp

text \<open>
  C1. The probe is to return, for every ProjectConfigurationsError of the scoped
  retrieval, the mapping in which every create-nodes aggregate and every merge error
  puts its files under the name of its provider. The code departs from this for a
  provider whose name is a key that the accumulator object inherits: for a create-nodes
  aggregate of a provider named \<open>constructor\<close> that cites \<open>file1\<close>, the mapping should
  hold \<open>file1\<close> under \<open>constructor\<close>, and the probe rejects with a TypeError instead.
\<close>

theorem checkCompatibleWithPlugins_rejects_on_inherited_key:
  "offendingFiles ''constructor'' constructorScenario = {''file1''}
   \<and> checkCompatibleWithPlugins loadsFine
        (retrievalFailsWith (ProjectConfigurationsError (Some constructorScenario)))
        readsNxJson ''/ws'' [PluginName ''constructor''] ''projectRootPathToCheck'' ''/tmp''
     = Inl (TypeError ''pluginNametoExcludeFiles[pluginName].add is not a function'')"
proof
  show "offendingFiles ''constructor'' constructorScenario = {''file1''}"
    by (auto simp: offendingFiles_def constructorScenario_def)
  show "checkCompatibleWithPlugins loadsFine
        (retrievalFailsWith (ProjectConfigurationsError (Some constructorScenario)))
        readsNxJson ''/ws'' [PluginName ''constructor''] ''projectRootPathToCheck'' ''/tmp''
     = Inl (TypeError ''pluginNametoExcludeFiles[pluginName].add is not a function'')"
    by code_simp
qed

lemma collectError_ignores:
  "\<not> isAggregateCreateNodesError e \<Longrightarrow> \<not> isMergeNodesError e \<Longrightarrow> collectError e m = Inr m"
  by (cases e) (simp_all add: collectError_def findPluginAndFilesWithError_def)

lemma collectErrors_ignores:
  "\<forall>e \<in> set es. \<not> isAggregateCreateNodesError e \<and> \<not> isMergeNodesError e \<Longrightarrow>
     collectErrors es m = Inr m"
  by (induction es arbitrary: m) (simp_all add: collectError_ignores)

text \<open>
  The four cases in which the probe returns the empty mapping: the providers cannot be
  loaded; the retrieval succeeds; it fails with anything but a
  ProjectConfigurationsError; it fails with a ProjectConfigurationsError that holds no
  create-nodes aggregate and no merge error. In the last three the workspace
  configuration has been read.
\<close>

lemma checkCompatibleWithPlugins_empty_cases:
  fixes loadNxPlugins :: "PluginConfiguration list \<Rightarrow> string \<Rightarrow> Error + 'p \<times> 'c"
    and retrieveProjectConfigurations :: "'p \<Rightarrow> string \<Rightarrow> NxJsonConfiguration \<Rightarrow> Error + 'r"
    and readNxJson :: "string \<Rightarrow> Error + NxJsonConfiguration"
    and workspaceRoot projectRootPathToCheck rootDir :: string
    and pluginList :: "PluginConfiguration list"
  defines "result \<equiv> checkCompatibleWithPlugins loadNxPlugins retrieveProjectConfigurations
               readNxJson workspaceRoot pluginList projectRootPathToCheck rootDir"
  shows "(\<forall>e. loadNxPlugins pluginList rootDir = Inl e \<longrightarrow> result = Inr [])
       \<and> (\<forall>nxPlugins cleanup nxJson configurations.
             loadNxPlugins pluginList rootDir = Inr (nxPlugins, cleanup) \<and>
             readNxJson workspaceRoot = Inr nxJson \<and>
             retrieveProjectConfigurations nxPlugins projectRootPathToCheck nxJson
               = Inr configurations \<longrightarrow> result = Inr [])
       \<and> (\<forall>nxPlugins cleanup nxJson e.
             loadNxPlugins pluginList rootDir = Inr (nxPlugins, cleanup) \<and>
             readNxJson workspaceRoot = Inr nxJson \<and>
             retrieveProjectConfigurations nxPlugins projectRootPathToCheck nxJson = Inl e \<and>
             (\<forall>errors. e \<noteq> ProjectConfigurationsError errors)
             \<longrightarrow> result = Inr [])
       \<and> (\<forall>nxPlugins cleanup nxJson errors.
             loadNxPlugins pluginList rootDir = Inr (nxPlugins, cleanup) \<and>
             readNxJson workspaceRoot = Inr nxJson \<and>
             retrieveProjectConfigurations nxPlugins projectRootPathToCheck nxJson
               = Inl (ProjectConfigurationsError (Some errors)) \<and>
             (\<forall>e \<in> set errors. \<not> isAggregateCreateNodesError e \<and> \<not> isMergeNodesError e)
             \<longrightarrow> result = Inr [])"
proof -
  have load: "\<And>e. loadNxPlugins pluginList rootDir = Inl e \<Longrightarrow> result = Inr []"
    by (simp add: result_def checkCompatibleWithPlugins_def)
  have ok: "\<And>nxPlugins cleanup nxJson configurations.
      loadNxPlugins pluginList rootDir = Inr (nxPlugins, cleanup) \<Longrightarrow>
      readNxJson workspaceRoot = Inr nxJson \<Longrightarrow>
      retrieveProjectConfigurations nxPlugins projectRootPathToCheck nxJson
        = Inr configurations \<Longrightarrow> result = Inr []"
    by (simp add: result_def checkCompatibleWithPlugins_def)
  have other: "\<And>nxPlugins cleanup nxJson e.
      loadNxPlugins pluginList rootDir = Inr (nxPlugins, cleanup) \<Longrightarrow>
      readNxJson workspaceRoot = Inr nxJson \<Longrightarrow>
      retrieveProjectConfigurations nxPlugins projectRootPathToCheck nxJson = Inl e \<Longrightarrow>
      \<forall>errors. e \<noteq> ProjectConfigurationsError errors \<Longrightarrow> result = Inr []"
    by (simp add: result_def checkCompatibleWithPlugins_def split: Error.splits)
  have ignored: "\<And>nxPlugins cleanup nxJson errors.
      loadNxPlugins pluginList rootDir = Inr (nxPlugins, cleanup) \<Longrightarrow>
      readNxJson workspaceRoot = Inr nxJson \<Longrightarrow>
      retrieveProjectConfigurations nxPlugins projectRootPathToCheck nxJson
        = Inl (ProjectConfigurationsError (Some errors)) \<Longrightarrow>
      \<forall>e \<in> set errors. \<not> isAggregateCreateNodesError e \<and> \<not> isMergeNodesError e \<Longrightarrow>
      result = Inr []"
    by (simp add: result_def checkCompatibleWithPlugins_def collectErrors_ignores)
  show ?thesis
    using load ok other ignored by blast
qed

text \<open>
  C8. The probe is never to propagate a failure: whatever goes wrong, it returns a
  mapping, the empty one in the four cases above. The code departs from this on two
  paths. An error thrown inside the \<^verbatim>\<open>catch\<close> handler escapes: with a merge error of a
  provider named \<open>toString\<close> after the five errors of the test, the probe rejects with
  a TypeError. And \<open>readNxJson\<close> is called outside both \<^verbatim>\<open>try\<close> blocks: when it throws,
  the probe rejects with what it threw.
\<close>

theorem checkCompatibleWithPlugins_propagates_failures:
  "checkCompatibleWithPlugins loadsFine
       (retrievalFailsWith (ProjectConfigurationsError (Some toStringScenario))) readsNxJson
       ''/ws'' [PluginName ''plugin1'', PluginName ''toString''] ''projectRootPathToCheck''
       ''/tmp''
     = Inl (TypeError ''pluginNametoExcludeFiles[pluginName].add is not a function'')
   \<and> checkCompatibleWithPlugins loadsFine retrievalSucceeds cannotReadNxJson
       ''/ws'' [PluginName ''plugin1'', PluginName ''plugin2''] ''projectRootPathToCheck''
       ''/tmp''
     = Inl (GenericError ''nx.json is not valid JSON'')"
  by code_simp

lemma findIndex_Some:
  "findIndex P xs = Some i \<Longrightarrow> i < length xs \<and> P (xs ! i)"
  by (induction xs arbitrary: i) (auto split: if_splits)

lemma findIndex_cong:
  "map P xs = map P ys \<Longrightarrow> findIndex P xs = findIndex P ys"
proof (induction xs arbitrary: ys)
  case Nil
  then show ?case by simp
next
  case (Cons x xs)
  then obtain y ys' where ys: "ys = y # ys'" "P x = P y" "map P xs = map P ys'"
    by (cases ys) auto
  with Cons.IH [of ys'] show ?case by simp
qed

lemma matchesPluginName_iff: "matchesPluginName pn d \<longleftrightarrow> descriptorName d = pn"
  by (cases d) auto

lemma distinct_fold_set_add: "distinct s \<Longrightarrow> distinct (fold set_add fs s)"
  by (induction fs arbitrary: s) (auto simp: set_add_def)

lemma excludeEntry_eq:
  "excludeEntry (pn, fs) ps =
     (case findIndex (matchesPluginName pn) ps of
        None \<Rightarrow> ps
      | Some i \<Rightarrow> ps[i := updatedDescriptor pn fs (ps ! i)])"
proof (cases "findIndex (matchesPluginName pn) ps")
  case None
  then show ?thesis by (simp add: findPluginWithName_def)
next
  case (Some i)
  from findIndex_Some [OF Some] have i: "i < length ps" by simp
  show ?thesis
  proof (cases "ps ! i")
    case (PluginName s)
    then show ?thesis
      using i by (simp add: Some findPluginWithName_def updatedDescriptor_def)
  next
    case (Expanded q)
    then show ?thesis
      using i list_update_id [of ps i]
      by (simp add: Some findPluginWithName_def updatedDescriptor_def)
  qed
qed

declare excludeEntry.simps [simp del]

lemma descriptorName_updatedDescriptor:
  "descriptorName d = pn \<Longrightarrow> descriptorName (updatedDescriptor pn fs d) = pn"
  by (cases d) (simp_all add: updatedDescriptor_def Let_def)

lemma names_excludeEntry:
  "map descriptorName (excludeEntry e ps) = map descriptorName ps"
proof (cases e)
  case (Pair pn fs)
  show ?thesis
  proof (cases "findIndex (matchesPluginName pn) ps")
    case None
    then show ?thesis by (simp add: Pair excludeEntry_eq)
  next
    case (Some i)
    from findIndex_Some [OF Some]
    have "i < length ps" "descriptorName (ps ! i) = pn"
      by (simp_all add: matchesPluginName_iff)
    then have "(map descriptorName ps)[i := pn] = map descriptorName ps"
      by (metis length_map list_update_id nth_map)
    with \<open>descriptorName (ps ! i) = pn\<close> show ?thesis
      by (simp add: Pair excludeEntry_eq Some map_update descriptorName_updatedDescriptor)
  qed
qed

lemma names_fold_excludeEntry:
  "map descriptorName (fold excludeEntry m ps) = map descriptorName ps"
  by (induction m arbitrary: ps) (simp_all add: names_excludeEntry)

lemma findIndex_names:
  "map descriptorName ps' = map descriptorName ps \<Longrightarrow>
     findIndex (matchesPluginName pn) ps' = findIndex (matchesPluginName pn) ps"
proof (rule findIndex_cong)
  assume "map descriptorName ps' = map descriptorName ps"
  then have "map (\<lambda>n. n = pn) (map descriptorName ps') = map (\<lambda>n. n = pn) (map descriptorName ps)"
    by simp
  then have "map ((\<lambda>n. n = pn) \<circ> descriptorName) ps' = map ((\<lambda>n. n = pn) \<circ> descriptorName) ps"
    by (simp only: map_map)
  moreover have "matchesPluginName pn = (\<lambda>n. n = pn) \<circ> descriptorName"
    by (rule ext) (simp add: matchesPluginName_iff)
  ultimately show "map (matchesPluginName pn) ps' = map (matchesPluginName pn) ps" by simp
qed

lemma excludeEntry_other:
  assumes "findIndex (matchesPluginName pn) ps = Some i" and "k \<noteq> pn"
  shows "excludeEntry (k, v) ps ! i = ps ! i"
proof (cases "findIndex (matchesPluginName k) ps")
  case None
  then show ?thesis by (simp add: excludeEntry_eq)
next
  case (Some j)
  from findIndex_Some [OF Some] findIndex_Some [OF assms(1)] assms(2)
  have "j \<noteq> i" by (auto simp: matchesPluginName_iff)
  then show ?thesis by (simp add: excludeEntry_eq Some)
qed

lemma fold_excludeEntry_other:
  "findIndex (matchesPluginName pn) ps = Some i \<Longrightarrow> pn \<notin> fst ` set m \<Longrightarrow>
     fold excludeEntry m ps ! i = ps ! i"
proof (induction m arbitrary: ps)
  case Nil
  show ?case by simp
next
  case (Cons e m)
  obtain k v where e: "e = (k, v)" by (cases e)
  from Cons.prems e have k: "k \<noteq> pn" and m: "pn \<notin> fst ` set m" by auto
  have f: "findIndex (matchesPluginName pn) (excludeEntry e ps) = Some i"
    using Cons.prems(1) by (simp add: findIndex_names [OF names_excludeEntry])
  show ?case
    using Cons.IH [OF f m] excludeEntry_other [OF Cons.prems(1) k] by (simp add: e)
qed

lemma fold_excludeEntry_at:
  "findIndex (matchesPluginName pn) ps = Some i \<Longrightarrow> distinct (map fst m) \<Longrightarrow>
     (pn, fs) \<in> set m \<Longrightarrow> fold excludeEntry m ps ! i = updatedDescriptor pn fs (ps ! i)"
proof (induction m arbitrary: ps)
  case Nil
  then show ?case by simp
next
  case (Cons e m)
  obtain k v where e: "e = (k, v)" by (cases e)
  have f: "findIndex (matchesPluginName pn) (excludeEntry e ps) = Some i"
    using Cons.prems(1) by (simp add: findIndex_names [OF names_excludeEntry])
  from findIndex_Some [OF Cons.prems(1)] have i: "i < length ps" by simp
  show ?case
  proof (cases "k = pn")
    case True
    with Cons.prems(2,3) e have v: "v = fs" and m: "pn \<notin> fst ` set m"
      by (auto simp: image_iff)
    have "excludeEntry e ps ! i = updatedDescriptor pn fs (ps ! i)"
      using i by (simp add: e True v excludeEntry_eq Cons.prems(1))
    with fold_excludeEntry_other [OF f m] show ?thesis by simp
  next
    case False
    with Cons.prems e have d: "distinct (map fst m)" and mem: "(pn, fs) \<in> set m" by auto
    from Cons.IH [OF f d mem] excludeEntry_other [OF Cons.prems(1) False]
    show ?thesis by (simp add: e)
  qed
qed

lemma updatedDescriptor_props:
  assumes "distinct fs"
  shows "\<exists>p. updatedDescriptor pn fs d = Expanded p
           \<and> plugin p = descriptorName (updatedDescriptor pn fs d)
           \<and> set (excludeList (Expanded p)) = set (excludeList d) \<union> set fs
           \<and> (fs \<noteq> [] \<longrightarrow> exclude p = Some (excludeList (Expanded p))
                          \<and> distinct (excludeList (Expanded p)))"
  using assms
  by (cases d)
     (auto simp: updatedDescriptor_def Let_def set_fold_set_add distinct_fold_set_add
       split: option.splits)

text \<open>
  C9. \<open>updatePluginsInNxJson\<close> writes nothing when the document is absent or
  unreadable, when it has no provider list (none or an empty one) and when the probe
  result is empty. Otherwise it rewrites the document: the provider list keeps its
  length, and for every entry of the probe result whose provider has a matching
  descriptor, that descriptor is in structured form under the same name and its exclude
  list holds exactly the previous exclude entries and the offending files, without
  duplicates.
\<close>

theorem updatePluginsInNxJson_excludes:
  "updatePluginsInNxJson Absent m = None
   \<and> updatePluginsInNxJson Unreadable m = None
   \<and> (plugins nxJson = None \<or> plugins nxJson = Some [] \<longrightarrow>
        updatePluginsInNxJson (Readable nxJson) m = None)
   \<and> updatePluginsInNxJson nxJsonFile [] = None
   \<and> (plugins nxJson = Some ps \<and> ps \<noteq> [] \<and> m \<noteq> [] \<and> distinct (map fst m) \<and>
        (\<forall>(pn, fs) \<in> set m. distinct fs) \<longrightarrow>
        (\<exists>ps'. updatePluginsInNxJson (Readable nxJson) m = Some (nxJson\<lparr>plugins := Some ps'\<rparr>)
           \<and> length ps' = length ps
           \<and> (\<forall>pn fs i. (pn, fs) \<in> set m \<and> findIndex (matchesPluginName pn) ps = Some i \<longrightarrow>
                 (\<exists>p. ps' ! i = Expanded p \<and> plugin p = pn
                    \<and> set (excludeList (ps' ! i)) = set (excludeList (ps ! i)) \<union> set fs
                    \<and> (fs \<noteq> [] \<longrightarrow> exclude p = Some (excludeList (ps' ! i))
                                    \<and> distinct (excludeList (ps' ! i)))))))"
proof -
  have none: "updatePluginsInNxJson nxJsonFile [] = None"
    by (simp add: updatePluginsInNxJson_def split: NxJsonFile.splits option.splits)
  have noplugins: "plugins nxJson = None \<or> plugins nxJson = Some [] \<longrightarrow>
        updatePluginsInNxJson (Readable nxJson) m = None"
    by (auto simp: updatePluginsInNxJson_def)
  have "\<exists>ps'. updatePluginsInNxJson (Readable nxJson) m = Some (nxJson\<lparr>plugins := Some ps'\<rparr>)
           \<and> length ps' = length ps
           \<and> (\<forall>pn fs i. (pn, fs) \<in> set m \<and> findIndex (matchesPluginName pn) ps = Some i \<longrightarrow>
                 (\<exists>p. ps' ! i = Expanded p \<and> plugin p = pn
                    \<and> set (excludeList (ps' ! i)) = set (excludeList (ps ! i)) \<union> set fs
                    \<and> (fs \<noteq> [] \<longrightarrow> exclude p = Some (excludeList (ps' ! i))
                                    \<and> distinct (excludeList (ps' ! i)))))"
    if h: "plugins nxJson = Some ps" "ps \<noteq> []" "m \<noteq> []" "distinct (map fst m)"
      "\<forall>(pn, fs) \<in> set m. distinct fs"
  proof -
    let ?ps' = "fold excludeEntry m ps"
    have w: "updatePluginsInNxJson (Readable nxJson) m = Some (nxJson\<lparr>plugins := Some ?ps'\<rparr>)"
      using h by (simp add: updatePluginsInNxJson_def)
    have l: "length ?ps' = length ps"
      using names_fold_excludeEntry [of m ps] by (metis length_map)
    have e: "\<exists>p. ?ps' ! i = Expanded p \<and> plugin p = pn
            \<and> set (excludeList (?ps' ! i)) = set (excludeList (ps ! i)) \<union> set fs
            \<and> (fs \<noteq> [] \<longrightarrow> exclude p = Some (excludeList (?ps' ! i))
                  \<and> distinct (excludeList (?ps' ! i)))"
      if a: "(pn, fs) \<in> set m \<and> findIndex (matchesPluginName pn) ps = Some i" for pn fs i
    proof -
      from a have at: "?ps' ! i = updatedDescriptor pn fs (ps ! i)"
        using fold_excludeEntry_at h(4) by blast
      from a h(5) have d: "distinct fs" by auto
      from a findIndex_Some have n: "descriptorName (ps ! i) = pn"
        by (metis matchesPluginName_iff)
      from updatedDescriptor_props [OF d, of pn "ps ! i"]
        descriptorName_updatedDescriptor [OF n, of fs]
      show ?thesis unfolding at by auto
    qed
    from w l e show ?thesis by blast
  qed
  then show ?thesis
    using none noplugins by (simp add: updatePluginsInNxJson_def)
qed

text \<open>
  A document with a bare-string descriptor and a structured one that excludes two files
  already, and the probe result of the five mixed errors.
\<close>

theorem updatePluginsInNxJson_excludes_witness:
  "\<exists>ps'. updatePluginsInNxJson
       (Readable \<lparr>plugins = Some [PluginName ''plugin1'',
            Expanded \<lparr>plugin = ''plugin2'', options = None, includePaths = None,
                      exclude = Some [''file3'', ''old'']\<rparr>], otherSettings = ''{}''\<rparr>)
       [(''plugin1'', [''file1'', ''file2'']), (''plugin2'', [''file2'', ''file3'', ''file4''])]
     = Some \<lparr>plugins = Some ps', otherSettings = ''{}''\<rparr>
     \<and> length ps' = 2
     \<and> (\<exists>p. ps' ! 0 = Expanded p \<and> plugin p = ''plugin1''
            \<and> set (excludeList (ps' ! 0)) = {''file1'', ''file2''}
            \<and> distinct (excludeList (ps' ! 0)))
     \<and> (\<exists>p. ps' ! 1 = Expanded p \<and> plugin p = ''plugin2''
            \<and> set (excludeList (ps' ! 1)) = {''file2'', ''file3'', ''file4'', ''old''}
            \<and> distinct (excludeList (ps' ! 1)))"
proof -
  let ?ps = "[PluginName ''plugin1'',
            Expanded \<lparr>plugin = ''plugin2'', options = None, includePaths = None,
                      exclude = Some [''file3'', ''old'']\<rparr>]"
  let ?doc = "\<lparr>plugins = Some ?ps, otherSettings = ''{}''\<rparr>"
  let ?m = "[(''plugin1'', [''file1'', ''file2'']), (''plugin2'', [''file2'', ''file3'', ''file4''])]"
  have i0: "findIndex (matchesPluginName ''plugin1'') ?ps = Some 0" by simp
  have i1: "findIndex (matchesPluginName ''plugin2'') ?ps = Some 1" by simp
  from updatePluginsInNxJson_excludes [of ?m ?doc Absent ?ps]
  obtain ps' where w: "updatePluginsInNxJson (Readable ?doc) ?m = Some (?doc\<lparr>plugins := Some ps'\<rparr>)"
    "length ps' = length ?ps"
    and e: "\<And>pn fs i. (pn, fs) \<in> set ?m \<Longrightarrow> findIndex (matchesPluginName pn) ?ps = Some i \<Longrightarrow>
         \<exists>p. ps' ! i = Expanded p \<and> plugin p = pn
            \<and> set (excludeList (ps' ! i)) = set (excludeList (?ps ! i)) \<union> set fs
            \<and> (fs \<noteq> [] \<longrightarrow> exclude p = Some (excludeList (ps' ! i))
                  \<and> distinct (excludeList (ps' ! i)))"
    by auto
  from e [of "''plugin1''" "[''file1'', ''file2'']" 0] i0
  have a: "\<exists>p. ps' ! 0 = Expanded p \<and> plugin p = ''plugin1''
            \<and> set (excludeList (ps' ! 0)) = {''file1'', ''file2''}
            \<and> distinct (excludeList (ps' ! 0))"
    by auto
  from e [of "''plugin2''" "[''file2'', ''file3'', ''file4'']" 1] i1
  have b: "\<exists>p. ps' ! 1 = Expanded p \<and> plugin p = ''plugin2''
            \<and> set (excludeList (ps' ! 1)) = {''file2'', ''file3'', ''file4'', ''old''}
            \<and> distinct (excludeList (ps' ! 1))"
    by auto
  from w a b show ?thesis by auto
qed

section \<open>Properties of the builder\<close>

lemma knownEndpoint_cong:
  "nodes b' = nodes b \<Longrightarrow> externalNodes b' = externalNodes b \<Longrightarrow>
     knownEndpoint b' n = knownEndpoint b n"
  by (simp add: knownEndpoint_def)

lemma addDependency_Inr:
  "addDependency s t ty sf b store = (Inr b', store') \<Longrightarrow>
     nodes (builderGraph b') = nodes (builderGraph b)
     \<and> externalNodes (builderGraph b') = externalNodes (builderGraph b)
     \<and> set (dependencies (builderGraph b')) =
         insert \<lparr>source = s, target = t, depType = ty, sourceFile = sf\<rparr>
           (set (dependencies (builderGraph b)))
     \<and> knownEndpoint (builderGraph b) s \<and> knownEndpoint (builderGraph b) t
     \<and> builderFileMap b' = builderFileMap b
     \<and> builderHasNonProjectFiles b' = builderHasNonProjectFiles b"
  by (auto simp: addDependency_def Let_def split: if_splits)

lemma addDependency_Inl:
  "addDependency s t ty sf b store = (Inl e, store') \<Longrightarrow>
     (\<not> knownEndpoint (builderGraph b) s \<or> \<not> knownEndpoint (builderGraph b) t) \<and> store' = store"
  by (auto simp: addDependency_def Let_def split: if_splits)

lemma addDependencies_props:
  "addDependencies ds b store = (b', r, store') \<Longrightarrow>
     nodes (builderGraph b') = nodes (builderGraph b)
     \<and> externalNodes (builderGraph b') = externalNodes (builderGraph b)
     \<and> set (dependencies (builderGraph b)) \<subseteq> set (dependencies (builderGraph b'))
     \<and> (r = None \<longrightarrow> set ds \<subseteq> set (dependencies (builderGraph b')))
     \<and> (r \<noteq> None \<longleftrightarrow>
          (\<exists>d \<in> set ds. \<not> knownEndpoint (builderGraph b) (source d)
                        \<or> \<not> knownEndpoint (builderGraph b) (target d)))"
proof (induction ds arbitrary: b store)
  case Nil
  then show ?case by simp
next
  case (Cons d ds)
  obtain res store1 where
    a: "addDependency (source d) (target d) (depType d) (sourceFile d) b store = (res, store1)"
    by (cases "addDependency (source d) (target d) (depType d) (sourceFile d) b store")
  show ?case
  proof (cases res)
    case (Inl e)
    from Cons.prems a Inl have e: "b' = b" "r = Some e" by simp_all
    from addDependency_Inl [OF a [unfolded Inl]]
    have "\<exists>d' \<in> set (d # ds). \<not> knownEndpoint (builderGraph b) (source d')
                              \<or> \<not> knownEndpoint (builderGraph b) (target d')"
      by simp
    then show ?thesis by (simp only: e) simp
  next
    case (Inr b1)
    note p = addDependency_Inr [OF a [unfolded Inr]]
    from Cons.prems a Inr have r: "addDependencies ds b1 store1 = (b', r, store')" by simp
    note ih = Cons.IH [OF r]
    have k: "knownEndpoint (builderGraph b1) n = knownEndpoint (builderGraph b) n" for n
      using p knownEndpoint_cong [of "builderGraph b1" "builderGraph b" n] by simp
    have "\<lparr>source = source d, target = target d, depType = depType d,
            sourceFile = sourceFile d\<rparr> = d"
      by simp
    with p have d: "d \<in> set (dependencies (builderGraph b1))" by simp
    from p have s1: "set (dependencies (builderGraph b)) \<subseteq> set (dependencies (builderGraph b1))"
      by auto
    from ih have s2: "set (dependencies (builderGraph b1)) \<subseteq> set (dependencies (builderGraph b'))"
      by simp
    have 1: "nodes (builderGraph b') = nodes (builderGraph b)"
      "externalNodes (builderGraph b') = externalNodes (builderGraph b)"
      using ih p by simp_all
    have 2: "set (dependencies (builderGraph b)) \<subseteq> set (dependencies (builderGraph b'))"
      using s1 s2 by (rule subset_trans)
    have 3: "r = None \<longrightarrow> set (d # ds) \<subseteq> set (dependencies (builderGraph b'))"
      using ih d s2 by auto
    have g: "knownEndpoint (builderGraph b) (source d)" "knownEndpoint (builderGraph b) (target d)"
      using p by simp_all
    have "(r \<noteq> None) =
          (\<exists>d \<in> set ds. \<not> knownEndpoint (builderGraph b1) (source d)
                        \<or> \<not> knownEndpoint (builderGraph b1) (target d))"
      using ih by simp
    with g have 4: "(r \<noteq> None) =
          (\<exists>d' \<in> set (d # ds). \<not> knownEndpoint (builderGraph b) (source d')
                               \<or> \<not> knownEndpoint (builderGraph b) (target d'))"
      by (simp add: k)
    from 1 2 3 4 show ?thesis by simp
  qed
qed


lemma map_update_same:
  "map_of al k = Some v \<Longrightarrow> h v' = h v \<Longrightarrow>
     map (\<lambda>(p, x). (p, h x)) (AList.update k v' al) = map (\<lambda>(p, x). (p, h x)) al"
  by (induction al) (auto split: if_splits)






section \<open>Properties of the build\<close>

lemma copyCachedDeps_empty:
  "copyCachedDeps \<lparr>cachedNonProjectFiles = [], cachedProjectFileMap = []\<rparr> fm = fm"
proof -
  have "map (withCachedDeps []) fs = fs" for fs
    by (induction fs) (simp_all add: withCachedDeps_def)
  then show ?thesis by (simp add: copyCachedDeps_def)
qed

lemma pathAndHash_withCachedDeps: "pathAndHash (withCachedDeps cachedOfBucket f) = pathAndHash f"
  by (simp add: pathAndHash_def withCachedDeps_def split: option.splits)

lemma fingerprints_copyCachedDeps: "fingerprints (copyCachedDeps cachedFileData fm) = fingerprints fm"
proof -
  let ?step = "\<lambda>(proj, cachedOfProj) pfm.
                 case map_of pfm proj of
                   None \<Rightarrow> pfm
                 | Some fs \<Rightarrow> AList.update proj (map (withCachedDeps cachedOfProj) fs) pfm"
  let ?g = "\<lambda>(p, fs). (p, map pathAndHash fs)"
  have step: "map ?g (?step x pfm) = map ?g pfm" for x pfm
  proof -
    obtain proj cachedOfProj where x: "x = (proj, cachedOfProj)" by (cases x)
    show ?thesis
    proof (cases "map_of pfm proj")
      case None
      then show ?thesis by (simp add: x)
    next
      case (Some fs)
      have "map pathAndHash (map (withCachedDeps cachedOfProj) fs) = map pathAndHash fs"
        by (simp add: pathAndHash_withCachedDeps)
      from map_update_same [where h = "map pathAndHash", OF Some this]
      show ?thesis by (simp add: x Some)
    qed
  qed
  have "map ?g (fold ?step cs pfm) = map ?g pfm" for cs pfm
  proof (induction cs arbitrary: pfm)
    case Nil
    show ?case by simp
  next
    case (Cons x cs)
    have "map ?g (fold ?step (x # cs) pfm) = map ?g (?step x pfm)"
      using Cons.IH [of "?step x pfm"] by simp
    also have "\<dots> = map ?g pfm" by (rule step)
    finally show ?case .
  qed
  then show ?thesis
    by (simp add: copyCachedDeps_def fingerprints_def pathAndHash_withCachedDeps)
qed





text \<open>
  C10. As long as no file map is stored, which is so in the initial state,
  \<open>getFileMap\<close> returns a new empty file map (no non-project files, no project files),
  an empty list of workspace files and no references. After a build, whatever its
  outcome, its providers, its collaborators and the cache it was given, \<open>getFileMap\<close>
  returns the workspace files and the references of that build and the very file map
  object that the build received and stored: what has been written into that object
  since it was stored is read through it.
\<close>

theorem getFileMap_returns_stored:
  "storedFileMap initialState = None
   \<and> (storedFileMap s = None \<longrightarrow>
        getFileMap s
          = (NewObject \<lparr>nonProjectFiles = [], projectFileMap = []\<rparr>, Some [], None))
   \<and> getFileMap (fst (snd (buildProjectGraphUsingProjectFileMap env projectRootMap extNodes
        fileMap allWorkspaceFiles rustReferences fileMapCache pluginList sourceMap store)))
       = (ObjectAt fileMap, Some allWorkspaceFiles, Some rustReferences)"
proof -
  have 1: "storedFileMap initialState = None" by (simp add: initialState_def)
  have 2: "storedFileMap s = None \<longrightarrow>
        getFileMap s
          = (NewObject \<lparr>nonProjectFiles = [], projectFileMap = []\<rparr>, Some [], None)"
    by (simp add: getFileMap_def)
  have 3: "getFileMap (fst (snd (buildProjectGraphUsingProjectFileMap env projectRootMap extNodes
        fileMap allWorkspaceFiles rustReferences fileMapCache pluginList sourceMap store)))
       = (ObjectAt fileMap, Some allWorkspaceFiles, Some rustReferences)"
    by (simp add: buildProjectGraphUsingProjectFileMap_def Let_def getFileMap_def
        split: prod.splits)
  from 1 2 3 show ?thesis by blast
qed

text \<open>
  The file map before any build, and after a build without cache in which one provider
  fails and the other contributes the edge from \<open>a\<close> to \<open>b\<close> with its originating
  file: \<open>getFileMap\<close> returns the object of the build, in which the dependency list of
  that file now holds \<open>b\<close>.
\<close>

theorem getFileMap_returns_stored_witness:
  "getFileMap initialState
     = (NewObject \<lparr>nonProjectFiles = [], projectFileMap = []\<rparr>, Some [], None)
   \<and> getFileMap (fst (snd (buildProjectGraphUsingProjectFileMap invalidEnv twoProjects []
       0 [] ''references'' None [failingDepsPlugin, edgePlugin] twoSourceMaps oneStore)))
     = (ObjectAt 0, Some [], Some ''references'')
   \<and> contentOf
       (snd (snd (snd (buildProjectGraphUsingProjectFileMap invalidEnv twoProjects []
          0 [] ''references'' None [failingDepsPlugin, edgePlugin] twoSourceMaps oneStore))))
       (ObjectAt 0)
     = oneFileMapWithDeps"
proof -
  have c: "contentOf
       (snd (snd (snd (buildProjectGraphUsingProjectFileMap invalidEnv twoProjects []
          0 [] ''references'' None [failingDepsPlugin, edgePlugin] twoSourceMaps oneStore))))
       (ObjectAt 0)
     = oneFileMapWithDeps"
    by code_simp
  from getFileMap_returns_stored [of initialState invalidEnv twoProjects "[]" 0 "[]"
      "''references''" None "[failingDepsPlugin, edgePlugin]" twoSourceMaps oneStore] c
  show ?thesis by simp
qed

lemma build_outcome:
  "fst (buildProjectGraphUsingProjectFileMap env projectRootMap extNodes fileMap
          allWorkspaceFiles rustReferences fileMapCache pluginList sourceMap store) =
     (let projectMap =
            fold (\<lambda>(rootPath, project). AList.update (name project) project) projectRootMap [];
          errors =
            (case assertWorkspaceValidity env projectMap (envNxJson env) of
               None \<Rightarrow> []
             | Some e \<Rightarrow> if isWorkspaceValidityError e then [e] else [])
      in case fst (graphPhases env projectMap extNodes fileMap fileMapCache pluginList sourceMap store) of
            Inl (AggregateProjectGraphError es partialProjectGraph) \<Rightarrow>
              Inl (AggregateProjectGraphError (errors @ es) partialProjectGraph)
          | Inl e \<Rightarrow> Inl e
          | Inr (projectGraph, projectFileMapCache) \<Rightarrow>
              if errors \<noteq> [] then Inl (AggregateProjectGraphError errors projectGraph)
              else Inr (projectGraph, projectFileMapCache))"
  by (simp add: buildProjectGraphUsingProjectFileMap_def Let_def split: prod.splits)

text \<open>
  C7, as the code has it. When the validity check throws a workspace-validity error,
  the error is collected and the build goes on. If the graph phases succeed, the build
  throws an aggregate error holding the validity error alone and the fully built graph.
  If they fail with an aggregate error, the build throws an aggregate error holding the
  validity error followed by the phase errors, with the partial graph of the phases.
  If they fail with any other error, the build rethrows that error as it is.
\<close>

theorem build_merges_validity_error:
  assumes "projectMap =
             fold (\<lambda>(rootPath, project). AList.update (name project) project) projectRootMap []"
    and "assertWorkspaceValidity env projectMap (envNxJson env) = Some validityError"
    and "isWorkspaceValidityError validityError"
    and "phases = fst (graphPhases env projectMap extNodes fileMap fileMapCache pluginList
                         sourceMap store)"
  shows "fst (buildProjectGraphUsingProjectFileMap env projectRootMap extNodes fileMap
                allWorkspaceFiles rustReferences fileMapCache pluginList sourceMap store) =
           (case phases of
              Inr (projectGraph, projectFileMapCache) \<Rightarrow>
                Inl (AggregateProjectGraphError [validityError] projectGraph)
            | Inl (AggregateProjectGraphError es partialProjectGraph) \<Rightarrow>
                Inl (AggregateProjectGraphError (validityError # es) partialProjectGraph)
            | Inl e \<Rightarrow> Inl e)"
  using assms
  by (simp add: build_outcome Let_def split: sum.splits Error.splits prod.splits)

lemma projectMap_twoProjects:
  "fold (\<lambda>(rootPath, project). AList.update (name project) project) twoProjects []
     = [(''a'', projectA), (''b'', projectB)]"
  by (simp add: twoProjects_def projectA_def projectB_def)

lemma graphPhases_invalidEnv:
  "fst (graphPhases invalidEnv [(''a'', projectA), (''b'', projectB)] [] 0 None
          [failingDepsPlugin, edgePlugin] twoSourceMaps oneStore) =
     Inl (AggregateProjectGraphError
            [ProcessDependenciesError ''failing'' (GenericError ''no dependencies'')]
            (twoProjectGraph\<lparr>dependencies := [edgeAB]\<rparr>))"
  by code_simp

text \<open>
  An invalid workspace in which one dependency provider throws as well: one aggregate
  error with both errors and the graph that holds the edge of the other provider.
\<close>

theorem build_merges_validity_error_witness:
  "fst (buildProjectGraphUsingProjectFileMap invalidEnv twoProjects [] 0 []
          ''references'' None [failingDepsPlugin, edgePlugin] twoSourceMaps oneStore) =
     Inl (AggregateProjectGraphError
            [WorkspaceValidityError ''invalid workspace'',
             ProcessDependenciesError ''failing'' (GenericError ''no dependencies'')]
            (twoProjectGraph\<lparr>dependencies := [edgeAB]\<rparr>))"
proof -
  have v: "assertWorkspaceValidity invalidEnv [(''a'', projectA), (''b'', projectB)]
             (envNxJson invalidEnv) = Some (WorkspaceValidityError ''invalid workspace'')"
    by (simp add: invalidEnv_def)
  from build_merges_validity_error [OF projectMap_twoProjects [symmetric] v _
      graphPhases_invalidEnv [symmetric], of "[]" "''references''"]
  show ?thesis by simp
qed

text \<open>
  Not every failure of the graph phases is merged. The validity check throws a validity
  error in both builds below. In the first the node normalisation throws a plain error,
  in the second the builder refuses a known external node that conflicts with an
  earlier one: the build throws that error alone, and no aggregate error.
\<close>

theorem build_rethrows_other_error:
  "assertWorkspaceValidity brokenEnv [(''a'', projectA), (''b'', projectB)] (envNxJson brokenEnv)
     = Some (WorkspaceValidityError ''invalid workspace'')
   \<and> fst (buildProjectGraphUsingProjectFileMap brokenEnv twoProjects [] 0 []
            ''references'' None [] twoSourceMaps oneStore)
     = Inl (GenericError ''cannot normalize'')
   \<and> assertWorkspaceValidity invalidEnv [(''a'', projectA), (''b'', projectB)]
        (envNxJson invalidEnv)
     = Some (WorkspaceValidityError ''invalid workspace'')
   \<and> fst (buildProjectGraphUsingProjectFileMap invalidEnv twoProjects conflictingExternalNodes
            0 [] ''references'' None [] twoSourceMaps oneStore)
     = Inl (GenericError ''conflicting external node'')"
proof (intro conjI)
  show "assertWorkspaceValidity brokenEnv [(''a'', projectA), (''b'', projectB)]
          (envNxJson brokenEnv) = Some (WorkspaceValidityError ''invalid workspace'')"
    by (simp add: brokenEnv_def invalidEnv_def)
  show "fst (buildProjectGraphUsingProjectFileMap brokenEnv twoProjects [] 0 []
            ''references'' None [] twoSourceMaps oneStore) = Inl (GenericError ''cannot normalize'')"
    by code_simp
  show "assertWorkspaceValidity invalidEnv [(''a'', projectA), (''b'', projectB)]
          (envNxJson invalidEnv) = Some (WorkspaceValidityError ''invalid workspace'')"
    by (simp add: invalidEnv_def)
  show "fst (buildProjectGraphUsingProjectFileMap invalidEnv twoProjects conflictingExternalNodes
            0 [] ''references'' None [] twoSourceMaps oneStore)
          = Inl (GenericError ''conflicting external node'')"
    by code_simp
qed





















section \<open>Properties of the metadata phase\<close>










lemma settleOrder_sort: "settleOrder calls = sort_key settleTime calls"
proof -
  have "settleTime = (\<lambda>call :: string \<times> 'a Promise. fst (snd call))"
    by (rule ext) (simp add: settleTime_def)
  then show ?thesis by (simp add: settleOrder_def)
qed

text \<open>
  C3, as the code has it. The successful results of the metadata phase are buffered
  and applied only after every call has settled, in the order in which the calls
  settled: the buffer holds the calls sorted by the instant at which they settled,
  calls that settled at the same instant staying in provider-list order. Every call
  is made on the graph as it was before the phase. When the calls settle in
  provider-list order, the results are applied in provider-list order.
\<close>

theorem applyProjectMetadata_settle_order:
  assumes "calls = metadataCalls graph pluginList context"
    and "settled = settleOrder calls"
  shows "applyProjectMetadata graph pluginList context sourceMap
           = (metadataErrors settled, fold applyResult (metadataResults settled) (graph, sourceMap))
       \<and> set settled = set calls \<and> length settled = length calls
       \<and> sorted (map settleTime settled)
       \<and> (\<forall>t. filter (\<lambda>c. settleTime c = t) settled = filter (\<lambda>c. settleTime c = t) calls)
       \<and> (sorted (map settleTime calls) \<longrightarrow>
            snd (applyProjectMetadata graph pluginList context sourceMap)
              = fold applyResult (metadataResults calls) (graph, sourceMap))"
proof -
  have a: "applyProjectMetadata graph pluginList context sourceMap
           = (metadataErrors settled, fold applyResult (metadataResults settled) (graph, sourceMap))"
    by (simp add: applyProjectMetadata_def Let_def assms)
  have s: "settled = sort_key settleTime calls"
    by (simp add: assms(2) settleOrder_sort)
  have p: "set settled = set calls" "length settled = length calls"
    "sorted (map settleTime settled)"
    by (simp_all add: s)
  have st: "filter (\<lambda>c. settleTime c = t) settled = filter (\<lambda>c. settleTime c = t) calls" for t
    unfolding s by (rule sort_key_stable)
  have l: "settled = calls" if "sorted (map settleTime calls)"
    unfolding s using that by (rule sort_key_id_if_sorted)
  from a p st l show ?thesis by simp
qed

text \<open>
  Providers listed in the order in which they settle: the results are applied in
  provider-list order.
\<close>

theorem applyProjectMetadata_settle_order_witness:
  "snd (applyProjectMetadata twoProjectGraph [fastPlugin, slowPlugin] (emptyNxJson, ''/ws'')
          twoSourceMaps)
     = fold applyResult
         (metadataResults (metadataCalls twoProjectGraph [fastPlugin, slowPlugin]
            (emptyNxJson, ''/ws'')))
         (twoProjectGraph, twoSourceMaps)
   \<and> map snd (metadataResults (metadataCalls twoProjectGraph [fastPlugin, slowPlugin]
            (emptyNxJson, ''/ws''))) = [''fast'', ''slow'']"
proof -
  have c: "map settleTime (metadataCalls twoProjectGraph [fastPlugin, slowPlugin]
             (emptyNxJson, ''/ws'')) = [1, 2]"
    by (simp add: metadataCalls_def fastPlugin_def slowPlugin_def settleTime_def)
  have r: "map snd (metadataResults (metadataCalls twoProjectGraph [fastPlugin, slowPlugin]
            (emptyNxJson, ''/ws''))) = [''fast'', ''slow'']"
    by (simp add: metadataCalls_def fastPlugin_def slowPlugin_def)
  have so: "sorted (map settleTime (metadataCalls twoProjectGraph [fastPlugin, slowPlugin]
             (emptyNxJson, ''/ws'')))"
    by (simp add: c)
  from applyProjectMetadata_settle_order [OF refl refl, of twoProjectGraph
      "[fastPlugin, slowPlugin]" "(emptyNxJson, ''/ws'')" twoSourceMaps] so
  have "snd (applyProjectMetadata twoProjectGraph [fastPlugin, slowPlugin] (emptyNxJson, ''/ws'')
          twoSourceMaps)
     = fold applyResult
         (metadataResults (metadataCalls twoProjectGraph [fastPlugin, slowPlugin]
            (emptyNxJson, ''/ws'')))
         (twoProjectGraph, twoSourceMaps)"
    by blast
  then show ?thesis using r by (rule conjI)
qed

text \<open>
  Provider-list order is not what decides. With the providers listed as slow, fast, the
  buffer holds the result of fast before the result of slow, and the description of
  project \<open>a\<close> ends up as the one of slow, attributed to slow; applying the results in
  provider-list order would leave the description of fast.
\<close>

theorem metadata_applied_in_completion_order:
  "map pluginName [slowPlugin, fastPlugin] = [''slow'', ''fast'']
   \<and> map snd (metadataResults (settleOrder (metadataCalls twoProjectGraph
        [slowPlugin, fastPlugin] (emptyNxJson, ''/ws'')))) = [''fast'', ''slow'']
   \<and> metadataValue (fst (snd (applyProjectMetadata twoProjectGraph [slowPlugin, fastPlugin]
        (emptyNxJson, ''/ws'') twoSourceMaps))) ''a'' ''description''
      = Some (Scalar ''from slow'')
   \<and> attribution (snd (snd (applyProjectMetadata twoProjectGraph [slowPlugin, fastPlugin]
        (emptyNxJson, ''/ws'') twoSourceMaps))) ''a'' ''description''
      = Some (None, ''slow'')
   \<and> metadataValue (fst (fold applyResult
        (metadataResults (metadataCalls twoProjectGraph [slowPlugin, fastPlugin]
           (emptyNxJson, ''/ws'')))
        (twoProjectGraph, twoSourceMaps))) ''a'' ''description''
      = Some (Scalar ''from fast'')"
  by code_simp

section \<open>Properties of the dependency phase\<close>

lemma processDependencies_step:
  assumes "nodes (builderGraph b) = nodes g" and "externalNodes (builderGraph b) = externalNodes g"
  shows "\<exists>b1 E1 store1. processDependencies c (b, errs, store) = (b1, errs @ E1, store1)
           \<and> nodes (builderGraph b1) = nodes g \<and> externalNodes (builderGraph b1) = externalNodes g
           \<and> set (dependencies (builderGraph b)) \<subseteq> set (dependencies (builderGraph b1))
           \<and> (\<not> throwsInDependencyPhase g c \<longrightarrow>
                E1 = [] \<and> (\<forall>ds. snd (snd c) = Inr ds \<longrightarrow>
                             set ds \<subseteq> set (dependencies (builderGraph b1))))
           \<and> (throwsInDependencyPhase g c \<longrightarrow>
                (\<exists>cause. E1 = [ProcessDependenciesError (fst c) cause]
                   \<and> (\<forall>x. snd (snd c) = Inl x \<longrightarrow> cause = x)))"
proof -
  obtain pn t outcome where c: "c = (pn, t, outcome)" by (cases c)
  have k: "knownEndpoint (builderGraph b) n = knownEndpoint g n" for n
    using assms knownEndpoint_cong [of "builderGraph b" g n] by simp
  show ?thesis
  proof (cases outcome)
    case (Inl cause)
    then show ?thesis
      using assms by (simp add: c processDependencies_def throwsInDependencyPhase_def)
  next
    case (Inr ds)
    obtain b1 r store1 where a: "addDependencies ds b store = (b1, r, store1)"
      by (cases "addDependencies ds b store")
    note p = addDependencies_props [OF a]
    show ?thesis
    proof (cases r)
      case None
      with p have "\<not> throwsInDependencyPhase g c"
        by (simp add: c Inr throwsInDependencyPhase_def k)
      with p None assms show ?thesis
        by (simp add: c Inr processDependencies_def a)
    next
      case (Some cause)
      with p have "throwsInDependencyPhase g c"
        by (simp add: c Inr throwsInDependencyPhase_def k)
      with p Some assms show ?thesis
        by (simp add: c Inr processDependencies_def a)
    qed
  qed
qed

lemma fold_processDependencies:
  assumes "nodes (builderGraph b) = nodes g" and "externalNodes (builderGraph b) = externalNodes g"
  shows "\<exists>b' E store'. fold processDependencies cs (b, errs, store) = (b', errs @ E, store')
           \<and> nodes (builderGraph b') = nodes g \<and> externalNodes (builderGraph b') = externalNodes g
           \<and> set (dependencies (builderGraph b)) \<subseteq> set (dependencies (builderGraph b'))
           \<and> (\<forall>c \<in> set cs. \<not> throwsInDependencyPhase g c \<longrightarrow>
                (\<forall>ds. snd (snd c) = Inr ds \<longrightarrow> set ds \<subseteq> set (dependencies (builderGraph b'))))
           \<and> list_all2 (\<lambda>e c. \<exists>cause. e = ProcessDependenciesError (fst c) cause
                              \<and> (\<forall>x. snd (snd c) = Inl x \<longrightarrow> cause = x))
                E (filter (throwsInDependencyPhase g) cs)"
  using assms
proof (induction cs arbitrary: b errs store)
  case Nil
  then show ?case by simp
next
  case (Cons c cs)
  from processDependencies_step [OF Cons.prems, of c errs store]
  obtain b1 E1 store1 where s: "processDependencies c (b, errs, store) = (b1, errs @ E1, store1)"
    and n1: "nodes (builderGraph b1) = nodes g" "externalNodes (builderGraph b1) = externalNodes g"
    and d1: "set (dependencies (builderGraph b)) \<subseteq> set (dependencies (builderGraph b1))"
    and ok: "\<not> throwsInDependencyPhase g c \<Longrightarrow>
                E1 = [] \<and> (\<forall>ds. snd (snd c) = Inr ds \<longrightarrow>
                             set ds \<subseteq> set (dependencies (builderGraph b1)))"
    and bad: "throwsInDependencyPhase g c \<Longrightarrow>
                \<exists>cause. E1 = [ProcessDependenciesError (fst c) cause]
                   \<and> (\<forall>x. snd (snd c) = Inl x \<longrightarrow> cause = x)"
    by blast
  from Cons.IH [OF n1, of "errs @ E1" store1]
  obtain b' E2 store' where
    f: "fold processDependencies cs (b1, errs @ E1, store1) = (b', (errs @ E1) @ E2, store')"
    and n2: "nodes (builderGraph b') = nodes g" "externalNodes (builderGraph b') = externalNodes g"
    and d2: "set (dependencies (builderGraph b1)) \<subseteq> set (dependencies (builderGraph b'))"
    and ok2: "\<forall>c \<in> set cs. \<not> throwsInDependencyPhase g c \<longrightarrow>
                (\<forall>ds. snd (snd c) = Inr ds \<longrightarrow> set ds \<subseteq> set (dependencies (builderGraph b')))"
    and l2: "list_all2 (\<lambda>e c. \<exists>cause. e = ProcessDependenciesError (fst c) cause
                              \<and> (\<forall>x. snd (snd c) = Inl x \<longrightarrow> cause = x))
                E2 (filter (throwsInDependencyPhase g) cs)"
    by blast
  have l: "list_all2 (\<lambda>e c. \<exists>cause. e = ProcessDependenciesError (fst c) cause
                              \<and> (\<forall>x. snd (snd c) = Inl x \<longrightarrow> cause = x))
                (E1 @ E2) (filter (throwsInDependencyPhase g) (c # cs))"
  proof (cases "throwsInDependencyPhase g c")
    case True
    from bad [OF True] l2 True show ?thesis by auto
  next
    case False
    from ok [OF False] l2 False show ?thesis by simp
  qed
  have o: "\<forall>c' \<in> set (c # cs). \<not> throwsInDependencyPhase g c' \<longrightarrow>
                (\<forall>ds. snd (snd c') = Inr ds \<longrightarrow> set ds \<subseteq> set (dependencies (builderGraph b')))"
  proof (intro ballI impI allI)
    fix c' ds
    assume m: "c' \<in> set (c # cs)" and nt: "\<not> throwsInDependencyPhase g c'"
      and r: "snd (snd c') = Inr ds"
    show "set ds \<subseteq> set (dependencies (builderGraph b'))"
    proof (cases "c' = c")
      case True
      with ok nt r have "set ds \<subseteq> set (dependencies (builderGraph b1))" by simp
      from this d2 show ?thesis by (rule subset_trans)
    next
      case False
      with m have "c' \<in> set cs" by simp
      with ok2 nt r show ?thesis by simp
    qed
  qed
  have fo: "fold processDependencies (c # cs) (b, errs, store) = (b', errs @ (E1 @ E2), store')"
    by (simp add: s f)
  have dd: "set (dependencies (builderGraph b)) \<subseteq> set (dependencies (builderGraph b'))"
    using d1 d2 by (rule subset_trans)
  show ?case
  proof (intro exI conjI)
    show "fold processDependencies (c # cs) (b, errs, store) = (b', errs @ (E1 @ E2), store')"
      by (rule fo)
    show "nodes (builderGraph b') = nodes g" by (rule n2(1))
    show "externalNodes (builderGraph b') = externalNodes g" by (rule n2(2))
    show "set (dependencies (builderGraph b)) \<subseteq> set (dependencies (builderGraph b'))"
      by (rule dd)
    show "\<forall>c' \<in> set (c # cs). \<not> throwsInDependencyPhase g c' \<longrightarrow>
                (\<forall>ds. snd (snd c') = Inr ds \<longrightarrow> set ds \<subseteq> set (dependencies (builderGraph b')))"
      by (rule o)
    show "list_all2 (\<lambda>e c. \<exists>cause. e = ProcessDependenciesError (fst c) cause
                              \<and> (\<forall>x. snd (snd c) = Inl x \<longrightarrow> cause = x))
                (E1 @ E2) (filter (throwsInDependencyPhase g) (c # cs))"
      by (rule l)
  qed
qed

lemma applyToProject_dependencies:
  "dependencies (fst (applyToProject pn entry acc)) = dependencies (fst acc)"
  by (cases entry; cases acc)
     (simp add: applyToProject_def Let_def split: option.splits prod.splits)

lemma applyResult_dependencies:
  "dependencies (fst (applyResult r acc)) = dependencies (fst acc)"
proof -
  obtain pm pn where r: "r = (pm, pn)" by (cases r)
  have "dependencies (fst (fold (applyToProject pn) es acc')) = dependencies (fst acc')"
    for es acc'
    by (induction es arbitrary: acc') (simp_all add: applyToProject_dependencies)
  then show ?thesis by (simp add: r applyResult_def)
qed

lemma applyProjectMetadata_dependencies:
  "dependencies (fst (snd (applyProjectMetadata graph pluginList context sourceMap)))
     = dependencies graph"
proof -
  have "dependencies (fst (fold applyResult rs acc)) = dependencies (fst acc)" for rs acc
    by (induction rs arbitrary: acc) (simp_all add: applyResult_dependencies)
  then show ?thesis by (simp add: applyProjectMetadata_def Let_def)
qed

lemma metadataErrors_Nil_iff:
  "metadataErrors calls = [] \<longleftrightarrow> (\<forall>c \<in> set calls. \<forall>e. snd (snd c) \<noteq> Inl e)"
  by (induction calls rule: metadataErrors.induct) auto

lemma metadataErrors_settleOrder:
  "metadataErrors calls = [] \<Longrightarrow> metadataErrors (settleOrder calls) = []"
  by (simp add: metadataErrors_Nil_iff settleOrder_def)

lemma metadataErrors_filter:
  "metadataErrors calls = metadataErrors (filter rejects calls)"
  by (induction calls rule: metadataErrors.induct) (simp_all add: rejects_def)

lemma length_metadataErrors:
  "length (metadataErrors calls) = length (filter rejects calls)"
  by (induction calls rule: metadataErrors.induct) (simp_all add: rejects_def)

lemma length_filter_settleOrder:
  "length (filter P (settleOrder calls)) = length (filter P calls)"
  by (simp add: settleOrder_def filter_sort)

text \<open>
  C2, as the code has it. Let exactly one call of the dependency phase throw (its
  promise rejects, or the builder refuses one of its dependencies). Then
  \<open>updateProjectGraphWithPlugins\<close> throws an aggregate error. Its list begins with the
  process-dependencies error that names the throwing provider, with the rejection as
  its cause; it goes on with the create-metadata errors of the \<open>createMetadata\<close> calls
  of this run, which are made on the graph the dependency phase leaves: one for each
  call that rejects, so that the list has exactly one entry when none of them rejects.
  Its partial graph holds every dependency contributed by the other providers.
\<close>

theorem one_dependency_provider_throws:
  assumes "calls = dependencyCalls context pluginList store"
    and "filter (throwsInDependencyPhase initProjectGraph) calls = [(failing, t, outcome)]"
    and "graphWithDeps =
           getUpdatedProjectGraph (fst (dependencyPhase context initProjectGraph pluginList store))"
    and "metadataCallsOfRun =
           metadataCalls graphWithDeps pluginList (ctxNxJsonConfiguration context, wsRoot)"
  shows "\<exists>cause errors partialGraph.
           fst (updateProjectGraphWithPlugins wsRoot context initProjectGraph pluginList
                  sourceMap store)
             = Inl (AggregateProjectGraphError errors partialGraph)
           \<and> errors = ProcessDependenciesError failing cause
                        # metadataErrors (settleOrder metadataCallsOfRun)
           \<and> length errors = 1 + length (filter rejects metadataCallsOfRun)
           \<and> ((\<forall>c \<in> set metadataCallsOfRun. \<not> rejects c) \<longrightarrow>
                 errors = [ProcessDependenciesError failing cause])
           \<and> (\<forall>x. outcome = Inl x \<longrightarrow> cause = x)
           \<and> (\<forall>c \<in> set calls. \<not> throwsInDependencyPhase initProjectGraph c \<longrightarrow>
                 (\<forall>ds. snd (snd c) = Inr ds \<longrightarrow> set ds \<subseteq> set (dependencies partialGraph)))"
proof -
  let ?R = "\<lambda>e c. \<exists>cause. e = ProcessDependenciesError (fst c) cause
                              \<and> (\<forall>x. snd (snd c) = Inl x \<longrightarrow> cause = x)"
  let ?settled = "settleOrder calls"
  let ?b = "newProjectGraphBuilder (Some initProjectGraph) (ctxFileMap context) True"
  have b: "nodes (builderGraph ?b) = nodes initProjectGraph"
    "externalNodes (builderGraph ?b) = externalNodes initProjectGraph"
    by (simp_all add: newProjectGraphBuilder_def)
  from fold_processDependencies [where b = ?b and g = initProjectGraph
      and cs = ?settled and errs = "[]" and store = store, OF b]
  obtain b' E store' where f: "fold processDependencies ?settled (?b, [], store) = (b', E, store')"
    and ok: "\<forall>c \<in> set ?settled. \<not> throwsInDependencyPhase initProjectGraph c \<longrightarrow>
                (\<forall>ds. snd (snd c) = Inr ds \<longrightarrow> set ds \<subseteq> set (dependencies (builderGraph b')))"
    and l: "list_all2 ?R E (filter (throwsInDependencyPhase initProjectGraph) ?settled)"
    by auto
  have ph: "dependencyPhase context initProjectGraph pluginList store = (b', E, store')"
    by (simp add: dependencyPhase_def Let_def assms(1) [symmetric] f)
  have gd: "graphWithDeps = builderGraph b'"
    by (simp add: assms(3) ph getUpdatedProjectGraph_def)
  have "filter (throwsInDependencyPhase initProjectGraph) ?settled
          = sort_key (\<lambda>call. fst (snd call))
              (filter (throwsInDependencyPhase initProjectGraph) calls)"
    by (simp add: settleOrder_def filter_sort)
  also have "\<dots> = [(failing, t, outcome)]" by (simp add: assms(2))
  finally have "list_all2 ?R E [(failing, t, outcome)]" using l by simp
  then obtain cause where E: "E = [ProcessDependenciesError failing cause]"
    and c: "\<forall>x. outcome = Inl x \<longrightarrow> cause = x"
    by (auto simp: list_all2_Cons2)
  have s: "set ?settled = set calls" by (simp add: settleOrder_def)
  let ?merrs = "metadataErrors (settleOrder metadataCallsOfRun)"
  let ?errors = "ProcessDependenciesError failing cause # ?merrs"
  obtain merrs g' sm' where
    m: "applyProjectMetadata (builderGraph b') pluginList (ctxNxJsonConfiguration context, wsRoot)
          sourceMap = (merrs, g', sm')"
    by (cases "applyProjectMetadata (builderGraph b') pluginList
          (ctxNxJsonConfiguration context, wsRoot) sourceMap")
  have "fst (applyProjectMetadata (builderGraph b') pluginList
          (ctxNxJsonConfiguration context, wsRoot) sourceMap) = ?merrs"
    by (simp add: applyProjectMetadata_def Let_def assms(4) gd)
  with m have me: "merrs = ?merrs" by simp
  from applyProjectMetadata_dependencies [of "builderGraph b'" pluginList
      "(ctxNxJsonConfiguration context, wsRoot)" sourceMap] m
  have d: "dependencies g' = dependencies (builderGraph b')" by simp
  have r: "fst (updateProjectGraphWithPlugins wsRoot context initProjectGraph pluginList
                  sourceMap store)
             = Inl (AggregateProjectGraphError ?errors g')"
    by (simp add: updateProjectGraphWithPlugins_def Let_def ph getUpdatedProjectGraph_def E m me)
  have len: "length ?errors = 1 + length (filter rejects metadataCallsOfRun)"
    by (simp add: length_metadataErrors length_filter_settleOrder)
  have one: "(\<forall>c \<in> set metadataCallsOfRun. \<not> rejects c) \<longrightarrow>
               ?errors = [ProcessDependenciesError failing cause]"
  proof
    assume "\<forall>c \<in> set metadataCallsOfRun. \<not> rejects c"
    then have "filter rejects metadataCallsOfRun = []" by (simp add: filter_empty_conv)
    then have "length ?merrs = 0"
      by (simp add: length_metadataErrors length_filter_settleOrder)
    then show "?errors = [ProcessDependenciesError failing cause]" by simp
  qed
  from ok have ok': "\<forall>c \<in> set calls. \<not> throwsInDependencyPhase initProjectGraph c \<longrightarrow>
                 (\<forall>ds. snd (snd c) = Inr ds \<longrightarrow> set ds \<subseteq> set (dependencies g'))"
    unfolding s d .
  from r len one c ok' show ?thesis by blast
qed

text \<open>
  One provider rejects, the other contributes the edge from \<open>a\<close> to \<open>b\<close>, and no
  provider has metadata to give.
\<close>

theorem one_dependency_provider_throws_witness:
  "\<exists>partialGraph.
      fst (updateProjectGraphWithPlugins ''/ws'' twoContext twoProjectGraph
             [failingDepsPlugin, edgePlugin] twoSourceMaps oneStore)
        = Inl (AggregateProjectGraphError
                 [ProcessDependenciesError ''failing'' (GenericError ''no dependencies'')]
                 partialGraph)
      \<and> edgeAB \<in> set (dependencies partialGraph)"
proof -
  have c: "dependencyCalls twoContext [failingDepsPlugin, edgePlugin] oneStore
             = [(''failing'', 0, Inl (GenericError ''no dependencies'')),
                (''edges'', 0, Inr [edgeAB])]"
    by (simp add: dependencyCalls_def failingDepsPlugin_def edgePlugin_def)
  have k: "knownEndpoint twoProjectGraph ''a''" "knownEndpoint twoProjectGraph ''b''"
    by (simp_all add: knownEndpoint_def twoProjectGraph_def)
  have nt: "\<not> throwsInDependencyPhase twoProjectGraph (''edges'', 0, Inr [edgeAB])"
    using k by (simp add: throwsInDependencyPhase_def edgeAB_def)
  have t: "filter (throwsInDependencyPhase twoProjectGraph)
             [(''failing'', 0, Inl (GenericError ''no dependencies'')),
              (''edges'', 0, Inr [edgeAB])]
           = [(''failing'', 0, Inl (GenericError ''no dependencies''))]"
    using nt by (simp add: throwsInDependencyPhase_def)
  have m: "metadataCalls g [failingDepsPlugin, edgePlugin]
             (ctxNxJsonConfiguration twoContext, ''/ws'') = []" for g
    by (simp add: metadataCalls_def failingDepsPlugin_def edgePlugin_def)
  from one_dependency_provider_throws [OF c [symmetric] t refl refl, of "''/ws''" twoSourceMaps]
  obtain cause errors partialGraph where
    r: "fst (updateProjectGraphWithPlugins ''/ws'' twoContext twoProjectGraph
             [failingDepsPlugin, edgePlugin] twoSourceMaps oneStore)
        = Inl (AggregateProjectGraphError errors partialGraph)"
    and er: "(\<forall>c \<in> set ([] :: (string \<times> ProjectsMetadata Promise) list). \<not> rejects c) \<longrightarrow>
               errors = [ProcessDependenciesError ''failing'' cause]"
    and ca: "\<forall>x. Inl (GenericError ''no dependencies'') = (Inl x :: Error + ProjectGraphDependency list)
               \<longrightarrow> cause = x"
    and e: "\<forall>c \<in> set [(''failing'', 0, Inl (GenericError ''no dependencies'')),
                         (''edges'', 0, Inr [edgeAB])].
              \<not> throwsInDependencyPhase twoProjectGraph c \<longrightarrow>
                (\<forall>ds. snd (snd c) = Inr ds \<longrightarrow> set ds \<subseteq> set (dependencies partialGraph))"
    unfolding m by blast
  from er have er': "errors = [ProcessDependenciesError ''failing'' cause]" by simp
  from ca have ca': "cause = GenericError ''no dependencies''" by simp
  from e nt have "edgeAB \<in> set (dependencies partialGraph)" by simp
  with r er' ca' show ?thesis by blast
qed

text \<open>
  One entry is not all the list may hold. Exactly one of the two dependency calls throws
  here, and the provider of the other call rejects in the metadata phase: the aggregate
  error has two entries.
\<close>

theorem metadata_errors_join_the_list:
  "filter (throwsInDependencyPhase twoProjectGraph)
       (dependencyCalls twoContext [failingDepsPlugin, edgeNoMetadataPlugin] oneStore)
     = [(''failing'', 0, Inl (GenericError ''no dependencies''))]
   \<and> fst (updateProjectGraphWithPlugins ''/ws'' twoContext twoProjectGraph
            [failingDepsPlugin, edgeNoMetadataPlugin] twoSourceMaps oneStore)
     = Inl (AggregateProjectGraphError
              [ProcessDependenciesError ''failing'' (GenericError ''no dependencies''),
               CreateMetadataError (GenericError ''no metadata'') ''edges'']
              (twoProjectGraph\<lparr>dependencies := [edgeAB]\<rparr>))"
  by code_simp
end
